theory Spec2Isabelle
  imports Complex_Main "HOL-Library.Word"
begin

section \<open>Machine types and conversions\<close>

text \<open>
  The translator is compiled for a platform where \<^verbatim>\<open>unsigned\<close> is a 32-bit integer:
  arithmetic on it wraps modulo \<open>2 ^ 32\<close>, comparison is unsigned. The loop counters are
  \<^verbatim>\<open>size_t\<close>; they only count upwards from 0 or 1 to a bound that is an
  \<^verbatim>\<open>unsigned\<close>, so they are natural numbers here. A \<^verbatim>\<open>double\<close> is the real number it
  holds (no NaN, no infinity). Where the source converts an \<^verbatim>\<open>unsigned\<close> to
  \<^verbatim>\<open>double\<close>, halves it, adds or subtracts such values and casts the result back, every
  step is exact in double arithmetic and is written with the arithmetic of the reals. The
  trigonometry of \<^verbatim>\<open>WaypointBearing\<close> is not exact; its operations are parameters (see
  \<open>cmath\<close> below).
\<close>

type_synonym unsigned = "32 word"

text \<open>
  \<^verbatim>\<open>static_cast<unsigned>(d)\<close> for a double \<open>d\<close>: the fractional part is discarded
  (truncation towards zero). For a value outside the range of \<^verbatim>\<open>unsigned\<close> the C++
  behaviour is undefined; the model wraps there.
\<close>

definition static_cast_unsigned :: "real \<Rightarrow> unsigned" where
  "static_cast_unsigned d = word_of_int (if 0 \<le> d then \<lfloor>d\<rfloor> else \<lceil>d\<rceil>)"

text \<open>
  Modelled from the spec: the helper \<^verbatim>\<open>Convert\<close>, which turns a number into text, is not
  among the sources; the specification says that numeric values are converted to their
  textual form with no locale-sensitive formatting, that is, decimal digits.
\<close>

definition digit :: "nat \<Rightarrow> char" where
  "digit d = ''0123456789'' ! d"

function Convert :: "nat \<Rightarrow> string" where
  "Convert n =
     (if n < 10 then [digit n]
      else Convert (n div 10) @ [digit (n mod 10)])"
  by pat_completeness auto
termination
  by (relation "measure id") auto

declare Convert.simps [simp del]

section \<open>Bearing between two locations\<close>

text \<open>
  The arithmetic of \<^verbatim>\<open>double\<close> rounds: a sine, a product, a difference is the nearest
  \<^verbatim>\<open>double\<close>, not the real number, and whether the two arguments of the arctangent are
  exactly zero depends on it. The operations that \<^verbatim>\<open>WaypointBearing\<close> uses are therefore
  parameters of the model: the functions of the C library, the sum, difference and product
  of two \<^verbatim>\<open>double\<close>s, and the helpers \<^verbatim>\<open>Deg2Rad\<close> and \<^verbatim>\<open>Rad2Deg\<close>, which are not among the
  sources.
\<close>

record cmath =
  Deg2Rad :: "real \<Rightarrow> real"
  Rad2Deg :: "real \<Rightarrow> real"
  sin_double :: "real \<Rightarrow> real"
  cos_double :: "real \<Rightarrow> real"
  atan2_double :: "real \<Rightarrow> real \<Rightarrow> real"
  add_double :: "real \<Rightarrow> real \<Rightarrow> real"
  sub_double :: "real \<Rightarrow> real \<Rightarrow> real"
  mul_double :: "real \<Rightarrow> real \<Rightarrow> real"

text \<open>The two arguments handed to the arctangent in \<^verbatim>\<open>WaypointBearing\<close>.\<close>

definition bearing_y :: "cmath \<Rightarrow> real \<Rightarrow> real \<Rightarrow> real \<Rightarrow> real \<Rightarrow> real" where
  "bearing_y m lon1 lat1 lon2 lat2 =
     (let longitude1 = Deg2Rad m lon1;
          longitude2 = Deg2Rad m lon2;
          latitude2 = Deg2Rad m lat2;
          clat2 = cos_double m latitude2;
          dlon = sub_double m longitude2 longitude1
      in mul_double m (sin_double m dlon) clat2)"

definition bearing_x :: "cmath \<Rightarrow> real \<Rightarrow> real \<Rightarrow> real \<Rightarrow> real \<Rightarrow> real" where
  "bearing_x m lon1 lat1 lon2 lat2 =
     (let longitude1 = Deg2Rad m lon1;
          latitude1 = Deg2Rad m lat1;
          longitude2 = Deg2Rad m lon2;
          latitude2 = Deg2Rad m lat2;
          clat1 = cos_double m latitude1;
          clat2 = cos_double m latitude2;
          dlon = sub_double m longitude2 longitude1
      in sub_double m (mul_double m clat1 (sin_double m latitude2))
           (mul_double m (mul_double m (sin_double m latitude1) clat2) (cos_double m dlon)))"

definition WaypointBearing :: "cmath \<Rightarrow> real \<Rightarrow> real \<Rightarrow> real \<Rightarrow> real \<Rightarrow> unsigned" where
  "WaypointBearing m lon1 lat1 lon2 lat2 =
     (let y = bearing_y m lon1 lat1 lon2 lat2;
          x = bearing_x m lon1 lat1 lon2 lat2
      in if x = 0 \<and> y = 0 then 0
         else static_cast_unsigned
                (add_double m (add_double m 360 (Rad2Deg m (atan2_double m y x))) 0.5) mod 360)"

section \<open>Data model\<close>

text \<open>
  The enumerations of the target's task format. The header that declares them is not among
  the sources, so their numeric codes, and which enumerator a value-initialised field
  holds, are parameters of the model (see \<open>CTarget\<close> below).
\<close>

datatype StartSectorType_t = START_CIRCLE | START_LINE | START_SECTOR

datatype FinishSectorType_t = FINISH_CIRCLE | FINISH_LINE | FINISH_SECTOR

datatype ASTSectorType_t = AST_CIRCLE | AST_FAI

datatype AATType_t = WAYPOINT_AAT_CIRCLE | WAYPOINT_AAT_SECTOR

record SETTINGS_TASK =
  AATEnabled :: bool
  AATTaskLength :: unsigned
  AutoAdvance :: unsigned
  EnableMultipleStartPoints :: bool
  StartType :: StartSectorType_t
  StartRadius :: unsigned
  StartMaxHeight :: unsigned
  SectorType :: ASTSectorType_t
  SectorRadius :: unsigned
  FinishType :: FinishSectorType_t
  FinishRadius :: unsigned
  FinishMinHeight :: unsigned

record TASK_POINT =
  Index :: int
  AATType :: AATType_t
  AATCircleRadius :: unsigned
  AATSectorRadius :: unsigned
  AATStartRadial :: unsigned
  AATFinishRadial :: unsigned

text \<open>Of a start point only its index is ever written (field \<^verbatim>\<open>Index\<close> in the source).\<close>

record START_POINT =
  StartIndex :: int

record TWaypoint =
  number :: int
  latitude :: real
  longitude :: real
  altitude :: real
  flags :: unsigned
  name :: string
  comment :: string
  inTask :: bool

text \<open>
  The task file, as its parser hands it out: \<^verbatim>\<open>Value("Task", key)\<close>, converted with
  \<^verbatim>\<open>Convert<unsigned>\<close> or \<^verbatim>\<open>Convert<double>\<close> where the source converts it. The keys of
  task point \<open>i\<close> end in the decimal text of \<open>i\<close>; \<open>TP taskParser i\<close> collects them.
  The parser itself is not among the sources: an input is well-formed when every key that
  is read is there and every converted value is a number, and only such inputs are modelled.
\<close>

record task_point =
  TPName :: string
  TPPosX :: string
  TPPosY :: string
  TPPosZ :: real
  TPWidth :: unsigned
  TPSectorType :: unsigned
  TPRadius :: unsigned
  TPAngle :: unsigned
  TPHeight :: unsigned

text \<open>
  Penalty zone \<open>i\<close>: \<^verbatim>\<open>PZTop\<close> is written as the text found in the file, \<^verbatim>\<open>PZBase\<close> is
  converted; \<open>PZPos z j\<close> is the pair of the keys \<^verbatim>\<open>PZPos<j>X<i>\<close> and \<^verbatim>\<open>PZPos<j>Y<i>\<close>.
\<close>

record penalty_zone =
  PZTop :: string
  PZBase :: unsigned
  PZPos :: "nat \<Rightarrow> string \<times> string"

record task_file =
  Count :: unsigned
  TP :: "nat \<Rightarrow> task_point"
  PZCount :: unsigned
  PZ :: "nat \<Rightarrow> penalty_zone"

text \<open>The coordinate converter of the simulator's scenery, an external collaborator.\<close>

record CCoordConverter =
  Latitude :: "string \<Rightarrow> string \<Rightarrow> real"
  Longitude :: "string \<Rightarrow> string \<Rightarrow> real"

text \<open>
  What the translation unit takes from headers and classes that are not among the sources:
  the name of the target, constants, the numeric codes of the enumerations, the enumerators
  with code 0 (the value of a value-initialised or zeroed field), the text formats of
  coordinates and of a \<^verbatim>\<open>double\<close>, the conversion of text to a number, the join of
  two paths (\<^verbatim>\<open>operator/\<close>), and the arithmetic of \<^verbatim>\<open>double\<close> in \<open>math\<close>.
\<close>

record CTarget =
  Name :: string
  WAYPOINT_INDEX_OFFSET :: nat
  WAYPOINT_TURNPOINT :: unsigned
  SECTOR_CLASSIC :: unsigned
  SECTOR_WINDOW :: unsigned
  AUTOADVANCE_ARMSTART :: unsigned
  zero_StartType :: StartSectorType_t
  zero_SectorType :: ASTSectorType_t
  zero_FinishType :: FinishSectorType_t
  zero_AATType :: AATType_t
  code_StartType :: "StartSectorType_t \<Rightarrow> nat"
  code_SectorType :: "ASTSectorType_t \<Rightarrow> nat"
  code_FinishType :: "FinishSectorType_t \<Rightarrow> nat"
  Convert_unsigned :: "string \<Rightarrow> unsigned option"
  Coord2DDMMFF_lat :: "real \<Rightarrow> string"
  Coord2DDMMFF_lon :: "real \<Rightarrow> string"
  Coord2DDMMSS_lat :: "real \<Rightarrow> string"
  Coord2DDMMSS_lon :: "real \<Rightarrow> string"
  show_double :: "real \<Rightarrow> string"
  path_join :: "string \<Rightarrow> string \<Rightarrow> string"
  math :: cmath

text \<open>
  The sinks of the application. A warning is kept as a value that names its kind and the
  waypoint it is about; \<open>warning_text\<close> gives the line that is printed.
\<close>

datatype warning =
    DifferentFAIRadius string
  | LineNotSupported string
  | Angle270NotSupported string
  | DifferentCircleRadius string
  | WindowNotSupported string
  | DifferentTPTypes

fun warning_text :: "string \<Rightarrow> warning \<Rightarrow> string" where
  "warning_text target (DifferentFAIRadius wp) =
     ''WARNING: '' @ wp @ '': '' @ target @
     '' does not support different TPs types. The smallest radius will be used for all FAI sectors. If you advance a sector in ''
     @ target @ '' you will advance it in Condor.''"
| "warning_text target (LineNotSupported wp) =
     ''WARNING: '' @ wp @ '': '' @ target @
     '' does not support line TP type. FAI Sector will be used instead. You may need to manualy advance a waypoint after reaching it in Condor.''"
| "warning_text target (Angle270NotSupported wp) =
     ''WARNING: '' @ wp @ '': '' @ target @
     '' does not support TP with angle '' @ [CHR 0x27] @ ''270'' @ [CHR 0x27] @
     ''. Circle sector will be used instead. Be carefull to advance a waypoint in Condor after it has been advanced by the ''
     @ target @ ''.''"
| "warning_text target (DifferentCircleRadius wp) =
     ''WARNING: '' @ wp @ '': '' @ target @
     '' does not support different TPs types. The smallest radius will be used for all circle sectors. If you advance a sector in ''
     @ target @ '' you will advance it in Condor.''"
| "warning_text target (WindowNotSupported wp) =
     ''WARNING: '' @ wp @ '': '' @ target @
     '' does not support window TP type. Circle TP will be used and you are responsible for reaching it on correct height and with correct heading.''"
| "warning_text target DifferentTPTypes =
     ''WARNING: '' @ target @
     '' does not support different TPs types. FAI Sector will be used for all sectors. You may need to manualy advance a waypoint after reaching it in Condor.''"

text \<open>
  A reported error: the sector type of the point and the name of its waypoint. (The
  source prints the sector type as the text found in the file; the model keeps the number.)
\<close>

datatype report = UnsupportedSectorType unsigned string

text \<open>
  What stops a translation: the exception \<^verbatim>\<open>EOperationFailed\<close> of the capacity check,
  with the two numbers of its message, and a write outside the task point array (undefined
  behaviour in the source, a failure here).
\<close>

datatype failure = TooManyWaypoints unsigned unsigned | ArrayOutOfBounds nat

text \<open>
  The variables that the loop over the task points changes. Those that the mapping of the
  sector types reads and writes (the settings, the flag \<^verbatim>\<open>tpsValid\<close> and the two sinks)
  are kept together as \<open>res\<close>, apart from the arrays and the waypoint file.
\<close>

record resolver =
  settingsTask :: SETTINGS_TASK
  tpsValid :: bool
  warnings :: "warning list"
  errors :: "report list"

record loop_state =
  res :: resolver
  taskPointArray :: "TASK_POINT list"
  waypointArray :: "TWaypoint list"
  wpFile :: "(string \<times> string) list"

section \<open>TaskProcess\<close>

subsection \<open>AAT sectors\<close>

text \<open>
  The half angle of an AAT sector from the bearings \<open>angle1\<close> (previous point to this one)
  and \<open>angle2\<close> (next point to this one), and the two radials from the half angle and
  the declared angle of the sector. The sums are taken in \<^verbatim>\<open>unsigned\<close>, the halves in
  \<^verbatim>\<open>double\<close>, and the result is cast back.
\<close>

definition halfAngle_of :: "unsigned \<Rightarrow> unsigned \<Rightarrow> unsigned" where
  "halfAngle_of angle1 angle2 =
     (if angle1 = angle2 then angle1
      else
        let halfAngle = static_cast_unsigned (real (unat (angle1 + angle2)) / 2.0)
        in if (angle1 > angle2 \<and> angle1 - angle2 > 180) \<or> (angle1 < angle2 \<and> angle2 - angle1 > 180)
           then (halfAngle + 180) mod 360
           else halfAngle)"

definition AATStartRadial_of :: "unsigned \<Rightarrow> unsigned \<Rightarrow> unsigned" where
  "AATStartRadial_of halfAngle angle =
     static_cast_unsigned (real (unat (360 + halfAngle)) - real (unat angle) / 2.0) mod 360"

definition AATFinishRadial_of :: "unsigned \<Rightarrow> unsigned \<Rightarrow> unsigned" where
  "AATFinishRadial_of halfAngle angle =
     static_cast_unsigned (real (unat (360 + halfAngle)) + real (unat angle) / 2.0) mod 360"

text \<open>
  The branch \<^verbatim>\<open>AAT waypoints\<close>: what is written to \<^verbatim>\<open>taskPointArray[i - 1]\<close> for point
  \<open>i\<close> at longitude \<open>lon\<close> and latitude \<open>lat\<close>.
\<close>

definition AATPoint ::
  "CTarget \<Rightarrow> task_file \<Rightarrow> CCoordConverter \<Rightarrow> nat \<Rightarrow> real \<Rightarrow> real \<Rightarrow> unsigned \<Rightarrow> unsigned \<Rightarrow>
   TASK_POINT \<Rightarrow> TASK_POINT" where
  "AATPoint tgt taskParser coordConv i lon lat radius angle tp =
     (if angle = 360 then
        tp\<lparr>AATType := WAYPOINT_AAT_CIRCLE, AATCircleRadius := radius\<rparr>
      else
        let x1 = TPPosX (TP taskParser (i - 1));
            y1 = TPPosY (TP taskParser (i - 1));
            lon1 = Longitude coordConv x1 y1;
            lat1 = Latitude coordConv x1 y1;
            angle1 = WaypointBearing (math tgt) lon1 lat1 lon lat;
            x2 = TPPosX (TP taskParser (i + 1));
            y2 = TPPosY (TP taskParser (i + 1));
            lon2 = Longitude coordConv x2 y2;
            lat2 = Latitude coordConv x2 y2;
            angle2 = WaypointBearing (math tgt) lon2 lat2 lon lat;
            halfAngle = halfAngle_of angle1 angle2
        in tp\<lparr>AATType := WAYPOINT_AAT_SECTOR,
              AATSectorRadius := radius,
              AATStartRadial := AATStartRadial_of halfAngle angle,
              AATFinishRadial := AATFinishRadial_of halfAngle angle\<rparr>)"

subsection \<open>Start, finish and regular turnpoints\<close>

definition warn :: "warning \<Rightarrow> resolver \<Rightarrow> resolver" where
  "warn w s = s\<lparr>warnings := warnings s @ [w]\<rparr>"

definition set_SectorType :: "ASTSectorType_t \<Rightarrow> resolver \<Rightarrow> resolver" where
  "set_SectorType t s = s\<lparr>settingsTask := (settingsTask s)\<lparr>SectorType := t\<rparr>\<rparr>"

definition set_SectorRadius :: "unsigned \<Rightarrow> resolver \<Rightarrow> resolver" where
  "set_SectorRadius r s = s\<lparr>settingsTask := (settingsTask s)\<lparr>SectorRadius := r\<rparr>\<rparr>"

text \<open>\<^verbatim>\<open>case 90\<close> of the switch over the angle.\<close>

definition angle_90 :: "unsigned \<Rightarrow> nat \<Rightarrow> string \<Rightarrow> unsigned \<Rightarrow> resolver \<Rightarrow> resolver" where
  "angle_90 tpNum i wp radius s =
     (if i = 1 then s\<lparr>settingsTask := (settingsTask s)\<lparr>StartType := START_SECTOR\<rparr>\<rparr>
      else if i = unat (tpNum - 1) then
        s\<lparr>settingsTask := (settingsTask s)\<lparr>FinishType := FINISH_SECTOR\<rparr>\<rparr>
      else
        let s1 = (if i > 2 \<and> SectorType (settingsTask s) \<noteq> AST_FAI
                  then set_SectorRadius radius (s\<lparr>tpsValid := False\<rparr>)
                  else s);
            s2 = set_SectorType AST_FAI s1
        in if i > 2 \<and> SectorRadius (settingsTask s2) \<noteq> radius then
             set_SectorRadius (min (SectorRadius (settingsTask s2)) radius)
               (warn (DifferentFAIRadius wp) s2)
           else set_SectorRadius radius s2)"

text \<open>\<^verbatim>\<open>case 180\<close>.\<close>

definition angle_180 :: "unsigned \<Rightarrow> nat \<Rightarrow> string \<Rightarrow> unsigned \<Rightarrow> resolver \<Rightarrow> resolver" where
  "angle_180 tpNum i wp radius s =
     (if i = 1 then s\<lparr>settingsTask := (settingsTask s)\<lparr>StartType := START_LINE\<rparr>\<rparr>
      else if i = unat (tpNum - 1) then
        s\<lparr>settingsTask := (settingsTask s)\<lparr>FinishType := FINISH_LINE\<rparr>\<rparr>
      else if i > 2 \<and> SectorType (settingsTask s) = AST_FAI then s\<lparr>tpsValid := False\<rparr>
      else set_SectorRadius radius (set_SectorType AST_FAI (warn (LineNotSupported wp) s)))"

text \<open>\<^verbatim>\<open>case 360\<close>, which \<^verbatim>\<open>case 270\<close> falls through to.\<close>

definition angle_360 :: "unsigned \<Rightarrow> nat \<Rightarrow> string \<Rightarrow> unsigned \<Rightarrow> resolver \<Rightarrow> resolver" where
  "angle_360 tpNum i wp radius s =
     (if i = 1 then s\<lparr>settingsTask := (settingsTask s)\<lparr>StartType := START_CIRCLE\<rparr>\<rparr>
      else if i = unat (tpNum - 1) then
        s\<lparr>settingsTask := (settingsTask s)\<lparr>FinishType := FINISH_CIRCLE\<rparr>\<rparr>
      else if i > 2 \<and> SectorType (settingsTask s) \<noteq> AST_CIRCLE then s\<lparr>tpsValid := False\<rparr>
      else
        let s1 = set_SectorType AST_CIRCLE s
        in if i > 2 \<and> SectorRadius (settingsTask s1) \<noteq> radius then
             set_SectorRadius (min (SectorRadius (settingsTask s1)) radius)
               (warn (DifferentCircleRadius wp) s1)
           else set_SectorRadius radius s1)"

text \<open>The switch: \<^verbatim>\<open>case 270\<close> warns and has no \<^verbatim>\<open>break\<close>; the default does nothing.\<close>

definition angle_switch :: "unsigned \<Rightarrow> nat \<Rightarrow> string \<Rightarrow> unsigned \<Rightarrow> unsigned \<Rightarrow> resolver \<Rightarrow> resolver" where
  "angle_switch tpNum i wp radius angle s =
     (if angle = 90 then angle_90 tpNum i wp radius s
      else if angle = 180 then angle_180 tpNum i wp radius s
      else if angle = 270 then angle_360 tpNum i wp radius (warn (Angle270NotSupported wp) s)
      else if angle = 360 then angle_360 tpNum i wp radius s
      else s)"

text \<open>
  The branch \<^verbatim>\<open>START, END or regular (not AAT) waypoint\<close>: the switch, then the radius and
  height of the start and the radius of the finish. \<open>height\<close> is \<^verbatim>\<open>TPHeight\<close> of the point.
\<close>

definition ClassicPoint ::
  "unsigned \<Rightarrow> nat \<Rightarrow> string \<Rightarrow> unsigned \<Rightarrow> unsigned \<Rightarrow> unsigned \<Rightarrow> resolver \<Rightarrow> resolver" where
  "ClassicPoint tpNum i wp radius angle height s =
     (let s1 = angle_switch tpNum i wp radius angle s
      in if i = 1 then
           s1\<lparr>settingsTask := (settingsTask s1)\<lparr>StartRadius := radius, StartMaxHeight := height\<rparr>\<rparr>
         else if i = unat (tpNum - 1) then
           s1\<lparr>settingsTask := (settingsTask s1)\<lparr>FinishRadius := radius, FinishMinHeight := 0\<rparr>\<rparr>
         else s1)"

subsection \<open>One task point\<close>

definition waypoint_name :: "unsigned \<Rightarrow> nat \<Rightarrow> string \<Rightarrow> string" where
  "waypoint_name tpNum i tpName =
     (if i = 1 then ''S:'' @ tpName
      else if i = unat (tpNum - 1) then ''F:'' @ tpName
      else Convert (i - 1) @ '':'' @ tpName)"

text \<open>
  What is done with the task point array entry \<open>i - 1\<close> and the settings for a point
  whose waypoint has been stored: the part \<^verbatim>\<open>dump Task File data\<close> of the loop body.
\<close>

definition SectorProcess ::
  "CTarget \<Rightarrow> task_file \<Rightarrow> CCoordConverter \<Rightarrow> unsigned \<Rightarrow> nat \<Rightarrow> string \<Rightarrow> real \<Rightarrow> real \<Rightarrow>
   loop_state \<Rightarrow> loop_state" where
  "SectorProcess tgt taskParser coordConv tpNum i wp lon lat s =
     (let sectorType = TPSectorType (TP taskParser i)
      in if sectorType = SECTOR_CLASSIC tgt then
           let radius = TPRadius (TP taskParser i);
               angle = TPAngle (TP taskParser i)
           in if AATEnabled (settingsTask (res s)) \<and> i > 1 \<and> i < unat (tpNum - 1) then
                s\<lparr>taskPointArray := (taskPointArray s)
                     [i - 1 := AATPoint tgt taskParser coordConv i lon lat radius angle
                                 (taskPointArray s ! (i - 1))]\<rparr>
              else s\<lparr>res := ClassicPoint tpNum i wp radius angle (TPHeight (TP taskParser i)) (res s)\<rparr>
         else if sectorType = SECTOR_WINDOW tgt then s\<lparr>res := warn (WindowNotSupported wp) (res s)\<rparr>
         else s\<lparr>res := (res s)\<lparr>errors := errors (res s) @ [UnsupportedSectorType sectorType wp]\<rparr>\<rparr>)"

text \<open>
  The body of the loop for point \<open>i\<close>. Every access to the task point array in the body
  is to entry \<open>i - 1\<close>, so the bound is checked once.
\<close>

definition TaskPoint ::
  "CTarget \<Rightarrow> task_file \<Rightarrow> CCoordConverter \<Rightarrow> bool \<Rightarrow> string \<Rightarrow> unsigned \<Rightarrow> nat \<Rightarrow>
   loop_state \<Rightarrow> failure + loop_state" where
  "TaskPoint tgt taskParser coordConv generateWPFile wpPath tpNum i s =
     (let tpIdxStr = Convert i;
          tpName = TPName (TP taskParser i);
          wp = waypoint_name tpNum i tpName;
          x = TPPosX (TP taskParser i);
          y = TPPosY (TP taskParser i);
          lat = Latitude coordConv x y;
          lon = Longitude coordConv x y;
          latitudeStr = Coord2DDMMFF_lat tgt lat;
          longitudeStr = Coord2DDMMFF_lon tgt lon;
          minAlt = real (unat (TPWidth (TP taskParser i)));
          alt = (if minAlt \<noteq> 0 then minAlt else TPPosZ (TP taskParser i));
          s1 = (if generateWPFile then
                  s\<lparr>wpFile := wpFile s @
                       [(wpPath, tpIdxStr @ '','' @ latitudeStr @ '','' @ longitudeStr @ '','' @
                                 show_double tgt alt @ ''M,T,'' @ wp @ '','' @ tpName)]\<rparr>
                else s)
      in if i - 1 < length (taskPointArray s1) then
           let waypoint = \<lparr>number = int (WAYPOINT_INDEX_OFFSET tgt + i),
                           latitude = lat, longitude = lon, altitude = alt,
                           flags = WAYPOINT_TURNPOINT tgt, name = wp, comment = tpName,
                           inTask = True\<rparr>;
               s2 = s1\<lparr>taskPointArray := (taskPointArray s1)
                         [i - 1 := (taskPointArray s1 ! (i - 1))\<lparr>Index := number waypoint\<rparr>],
                       waypointArray := waypointArray s1 @ [waypoint]\<rparr>
           in Inr (SectorProcess tgt taskParser coordConv tpNum i wp lon lat s2)
         else Inl (ArrayOutOfBounds (i - 1)))"

subsection \<open>The loop and the whole translation\<close>

text \<open>\<^verbatim>\<open>for(size_t i=1; i<tpNum; i++)\<close>, from the current value of \<open>i\<close>.\<close>

function TaskLoop ::
  "CTarget \<Rightarrow> task_file \<Rightarrow> CCoordConverter \<Rightarrow> bool \<Rightarrow> string \<Rightarrow> unsigned \<Rightarrow> nat \<Rightarrow>
   loop_state \<Rightarrow> failure + loop_state" where
  "TaskLoop tgt taskParser coordConv generateWPFile wpPath tpNum i s =
     (if i < unat tpNum then
        (case TaskPoint tgt taskParser coordConv generateWPFile wpPath tpNum i s of
           Inl e \<Rightarrow> Inl e
         | Inr s' \<Rightarrow> TaskLoop tgt taskParser coordConv generateWPFile wpPath tpNum (Suc i) s')
      else Inr s)"
  by pat_completeness auto
termination
  by (relation "measure (\<lambda>(tgt, taskParser, coordConv, generateWPFile, wpPath, tpNum, i, s). unat tpNum - i)")
    auto

declare TaskLoop.simps [simp del]

text \<open>
  What the translation hands on: the profile after the writes of \<^verbatim>\<open>TaskProcess\<close>, the
  arguments of \<^verbatim>\<open>TaskDump\<close> (which is not among the sources), the two sinks and the lines
  written to the waypoint file, each with the path of the file.
\<close>

record task_result =
  profile :: "string \<rightharpoonup> string"
  settings :: SETTINGS_TASK
  taskPoints :: "TASK_POINT list"
  startPoints :: "START_POINT list"
  waypoints :: "TWaypoint list"
  warning_sink :: "warning list"
  error_sink :: "report list"
  wpFile_lines :: "(string \<times> string) list"

text \<open>The value of \<^verbatim>\<open>settingsTask\<close> before the loop.\<close>

definition initial_settings :: "CTarget \<Rightarrow> (string \<rightharpoonup> string) \<Rightarrow> unsigned \<Rightarrow> SETTINGS_TASK" where
  "initial_settings tgt profileParser aatTime =
     \<lparr>AATEnabled = (aatTime > 0),
      AATTaskLength = aatTime,
      AutoAdvance =
        (case profileParser ''AutoAdvance'' of
           None \<Rightarrow> AUTOADVANCE_ARMSTART tgt
         | Some v \<Rightarrow>
             (case Convert_unsigned tgt v of
                None \<Rightarrow> AUTOADVANCE_ARMSTART tgt
              | Some n \<Rightarrow> n)),
      EnableMultipleStartPoints = False,
      StartType = zero_StartType tgt,
      StartRadius = 0,
      StartMaxHeight = 0,
      SectorType = zero_SectorType tgt,
      SectorRadius = 0,
      FinishType = zero_FinishType tgt,
      FinishRadius = 0,
      FinishMinHeight = 0\<rparr>"

text \<open>The state before the loop: the arrays reset, no waypoint, nothing reported.\<close>

definition initial_state ::
  "CTarget \<Rightarrow> (string \<rightharpoonup> string) \<Rightarrow> unsigned \<Rightarrow> unsigned \<Rightarrow> loop_state" where
  "initial_state tgt profileParser aatTime maxTaskPoints =
     \<lparr>res = \<lparr>settingsTask = initial_settings tgt profileParser aatTime,
             tpsValid = True,
             warnings = [],
             errors = []\<rparr>,
      taskPointArray =
        replicate (unat maxTaskPoints)
          \<lparr>Index = - 1, AATType = zero_AATType tgt, AATCircleRadius = 0, AATSectorRadius = 0,
           AATStartRadial = 0, AATFinishRadial = 360\<rparr>,
      waypointArray = [],
      wpFile = []\<rparr>"

text \<open>The writes to the profile after the loop, in the order of the source.\<close>

definition set_profile :: "CTarget \<Rightarrow> SETTINGS_TASK \<Rightarrow> (string \<rightharpoonup> string) \<Rightarrow> (string \<rightharpoonup> string)" where
  "set_profile tgt st profileParser =
     profileParser
       (''StartLine'' \<mapsto> Convert (code_StartType tgt (StartType st)),
        ''StartMaxHeight'' \<mapsto> Convert (unat (StartMaxHeight st)),
        ''StartMaxHeightMargin'' \<mapsto> ''0'',
        ''StartHeightRef'' \<mapsto> ''1'',
        ''StartRadius'' \<mapsto> Convert (unat (StartRadius st)),
        ''StartMaxSpeed'' \<mapsto> ''0'',
        ''StartMaxSpeedMargin'' \<mapsto> ''0'',
        ''FAISector'' \<mapsto> Convert (code_SectorType tgt (SectorType st)),
        ''Radius'' \<mapsto> Convert (unat (SectorRadius st)),
        ''FinishLine'' \<mapsto> Convert (code_FinishType tgt (FinishType st)),
        ''FinishMinHeight'' \<mapsto> Convert (unat (FinishMinHeight st)),
        ''FinishRadius'' \<mapsto> Convert (unat (FinishRadius st)),
        ''FAIFinishHeight'' \<mapsto> Convert (unat (FinishMinHeight st)))"

text \<open>The warning after the loop.\<close>

definition uniform_warning :: "resolver \<Rightarrow> resolver" where
  "uniform_warning r = (if \<not> tpsValid r then warn DifferentTPTypes r else r)"

definition TaskProcess ::
  "CTarget \<Rightarrow> (string \<rightharpoonup> string) \<Rightarrow> task_file \<Rightarrow> CCoordConverter \<Rightarrow> unsigned \<Rightarrow> unsigned \<Rightarrow>
   unsigned \<Rightarrow> bool \<Rightarrow> string \<Rightarrow> failure + task_result" where
  "TaskProcess tgt profileParser taskParser coordConv aatTime maxTaskPoints maxStartPoints
     generateWPFile wpOutputPathPrefix =
     (let tpNum = Count taskParser
      in if tpNum - 1 > maxTaskPoints then Inl (TooManyWaypoints (tpNum - 1) maxTaskPoints)
         else
           (case TaskLoop tgt taskParser coordConv generateWPFile
                   (path_join tgt wpOutputPathPrefix ''Condor.dat'') tpNum 1
                   (initial_state tgt profileParser aatTime maxTaskPoints) of
              Inl e \<Rightarrow> Inl e
            | Inr s \<Rightarrow>
                let r = uniform_warning (res s)
                in Inr \<lparr>profile = set_profile tgt (settingsTask r) profileParser,
                        settings = settingsTask r,
                        taskPoints = taskPointArray s,
                        startPoints = replicate (unat maxStartPoints) \<lparr>StartIndex = - 1\<rparr>,
                        waypoints = waypointArray s,
                        warning_sink = warnings r,
                        error_sink = errors r,
                        wpFile_lines = wpFile s\<rparr>))"

section \<open>PenaltyZonesProcess\<close>

text \<open>A file is a list of lines: every \<^verbatim>\<open>std::endl\<close> of the source ends one.\<close>

definition banner :: "string list" where
  "banner =
     [''*******************************************************'',
      ''* Condor Task Penalty Zones generated with Condor2Nav *'',
      ''*******************************************************'']"

text \<open>The line of corner \<open>j\<close> of a zone.\<close>

definition zone_corner :: "CTarget \<Rightarrow> CCoordConverter \<Rightarrow> penalty_zone \<Rightarrow> nat \<Rightarrow> string" where
  "zone_corner tgt coordConv z j =
     (let x = fst (PZPos z j);
          y = snd (PZPos z j)
      in ''DP '' @ Coord2DDMMSS_lat tgt (Latitude coordConv x y) @ '' '' @
         Coord2DDMMSS_lon tgt (Longitude coordConv x y))"

text \<open>
  The lines of zone \<open>i\<close>: the body of the outer loop, with the four rounds of the inner
  loop written out. The record starts with an empty line.
\<close>

definition zone_record :: "CTarget \<Rightarrow> task_file \<Rightarrow> CCoordConverter \<Rightarrow> nat \<Rightarrow> string list" where
  "zone_record tgt taskParser coordConv i =
     (let z = PZ taskParser i;
          base = PZBase z
      in [[],
          ''AC P'',
          ''AN Penalty Zone '' @ Convert (i + 1),
          ''AH '' @ PZTop z @ ''m AMSL'',
          (if base = 0 then ''AL 0'' else ''AL '' @ Convert (unat base) @ ''m AMSL''),
          zone_corner tgt coordConv z 0,
          zone_corner tgt coordConv z 1,
          zone_corner tgt coordConv z 2,
          zone_corner tgt coordConv z 3])"

text \<open>\<^verbatim>\<open>for(size_t i=0; i<pzNum; i++)\<close>, from the current value of \<open>i\<close>.\<close>

function PZLoop ::
  "CTarget \<Rightarrow> task_file \<Rightarrow> CCoordConverter \<Rightarrow> unsigned \<Rightarrow> nat \<Rightarrow> string list \<Rightarrow> string list" where
  "PZLoop tgt taskParser coordConv pzNum i airspacesFile =
     (if i < unat pzNum then
        PZLoop tgt taskParser coordConv pzNum (Suc i)
          (airspacesFile @ zone_record tgt taskParser coordConv i)
      else airspacesFile)"
  by pat_completeness auto
termination
  by (relation "measure (\<lambda>(tgt, taskParser, coordConv, pzNum, i, airspacesFile). unat pzNum - i)")
    auto

declare PZLoop.simps [simp del]

text \<open>
  The result is the profile and, when an airspace file is written, its path and lines.
  \<open>CHR 0x22\<close> is the double quote.
\<close>

definition PenaltyZonesProcess ::
  "CTarget \<Rightarrow> (string \<rightharpoonup> string) \<Rightarrow> task_file \<Rightarrow> CCoordConverter \<Rightarrow> string \<Rightarrow> string \<Rightarrow>
   (string \<rightharpoonup> string) \<times> (string \<times> string list) option" where
  "PenaltyZonesProcess tgt profileParser taskParser coordConv pathPrefix outputPathPrefix =
     (let pzNum = PZCount taskParser
      in if pzNum = 0 then (profileParser(''AirspaceFile'' \<mapsto> [CHR 0x22, CHR 0x22]), None)
         else
           (profileParser(''AirspaceFile'' \<mapsto>
              [CHR 0x22] @ path_join tgt pathPrefix ''Condor.txt'' @ [CHR 0x22]),
            Some (path_join tgt outputPathPrefix ''Condor.txt'',
                  PZLoop tgt taskParser coordConv pzNum 0 banner)))"

section \<open>An instance for the worked examples\<close>

text \<open>
  A target, a coordinate converter and task points to run the translation on. The target
  numbers the enumerators from 0 in the order of their declaration above; the converter
  reads no coordinates and puts every point at the origin. The arithmetic of the target is
  that of the reals, with the two-argument arctangent \<open>atan2\<close> with values in
  \<open>(-\<pi>, \<pi>]\<close>. It stands for the arithmetic of \<^verbatim>\<open>double\<close> at the points of the
  examples only, which are all at the origin: there the sine is 0, the cosine is 1, and the
  products and differences of 0 and 1 are the same in both. At other points the arithmetic
  of \<^verbatim>\<open>double\<close> rounds, and the examples say nothing about them.
\<close>

definition atan2 :: "real \<Rightarrow> real \<Rightarrow> real" where
  "atan2 y x =
     (if 0 < x then arctan (y / x)
      else if x < 0 \<and> 0 \<le> y then arctan (y / x) + pi
      else if x < 0 then arctan (y / x) - pi
      else if 0 < y then pi / 2
      else if y < 0 then - (pi / 2)
      else 0)"

definition exact_cmath :: cmath where
  "exact_cmath =
     \<lparr>Deg2Rad = (\<lambda>d. d * pi / 180),
      Rad2Deg = (\<lambda>r. r * 180 / pi),
      sin_double = sin,
      cos_double = cos,
      atan2_double = atan2,
      add_double = (\<lambda>a b. a + b),
      sub_double = (\<lambda>a b. a - b),
      mul_double = (\<lambda>a b. a * b)\<rparr>"

definition example_target :: CTarget where
  "example_target =
     \<lparr>Name = ''XCSoar'',
      WAYPOINT_INDEX_OFFSET = 100000,
      WAYPOINT_TURNPOINT = 2,
      SECTOR_CLASSIC = 0,
      SECTOR_WINDOW = 1,
      AUTOADVANCE_ARMSTART = 3,
      zero_StartType = START_CIRCLE,
      zero_SectorType = AST_CIRCLE,
      zero_FinishType = FINISH_CIRCLE,
      zero_AATType = WAYPOINT_AAT_CIRCLE,
      code_StartType = (\<lambda>t. case t of START_CIRCLE \<Rightarrow> 0 | START_LINE \<Rightarrow> 1 | START_SECTOR \<Rightarrow> 2),
      code_SectorType = (\<lambda>t. case t of AST_CIRCLE \<Rightarrow> 0 | AST_FAI \<Rightarrow> 1),
      code_FinishType = (\<lambda>t. case t of FINISH_CIRCLE \<Rightarrow> 0 | FINISH_LINE \<Rightarrow> 1 | FINISH_SECTOR \<Rightarrow> 2),
      Convert_unsigned = (\<lambda>v. None),
      Coord2DDMMFF_lat = (\<lambda>c. []),
      Coord2DDMMFF_lon = (\<lambda>c. []),
      Coord2DDMMSS_lat = (\<lambda>c. []),
      Coord2DDMMSS_lon = (\<lambda>c. []),
      show_double = (\<lambda>d. []),
      path_join = (\<lambda>p q. p @ ''/'' @ q),
      math = exact_cmath\<rparr>"

definition example_coordConv :: CCoordConverter where
  "example_coordConv = \<lparr>Latitude = (\<lambda>x y. 0), Longitude = (\<lambda>x y. 0)\<rparr>"

text \<open>A task point of classic sector type with the given angle and radius.\<close>

definition classic_point :: "unsigned \<Rightarrow> unsigned \<Rightarrow> task_point" where
  "classic_point angle radius =
     \<lparr>TPName = ''TP'', TPPosX = ''0'', TPPosY = ''0'', TPPosZ = 0, TPWidth = 0,
      TPSectorType = 0, TPRadius = radius, TPAngle = angle, TPHeight = 1500\<rparr>"

text \<open>
  A task file from the list of its points, the takeoff point first; \<^verbatim>\<open>Count\<close> is given
  apart, so that a file can declare another number of points than it holds. There is no
  penalty zone.
\<close>

definition example_task :: "unsigned \<Rightarrow> task_point list \<Rightarrow> task_file" where
  "example_task n ps =
     \<lparr>Count = n,
      TP = (\<lambda>i. if i < length ps then ps ! i else classic_point 0 0),
      PZCount = 0,
      PZ = (\<lambda>i. \<lparr>PZTop = [], PZBase = 0, PZPos = (\<lambda>j. ([], []))\<rparr>)\<rparr>"

section \<open>Kinds of warnings\<close>


section \<open>Evaluation rules\<close>

lemma Convert_digit: "n < 10 \<Longrightarrow> Convert n = [digit n]"
  by (subst Convert.simps) simp

lemma Convert_more: "\<not> n < 10 \<Longrightarrow> Convert n = Convert (n div 10) @ [digit (n mod 10)]"
  by (subst Convert.simps) simp

lemma TaskLoop_step:
  "i < unat tpNum \<Longrightarrow>
   TaskLoop tgt taskParser coordConv g wpPath tpNum i s =
     (case TaskPoint tgt taskParser coordConv g wpPath tpNum i s of
        Inl e \<Rightarrow> Inl e
      | Inr s' \<Rightarrow> TaskLoop tgt taskParser coordConv g wpPath tpNum (Suc i) s')"
  by (subst TaskLoop.simps) simp

lemma TaskLoop_done:
  "\<not> i < unat tpNum \<Longrightarrow> TaskLoop tgt taskParser coordConv g wpPath tpNum i s = Inr s"
  by (subst TaskLoop.simps) simp

lemma unat_max_unsigned: "unat (- 1 :: unsigned) = 4294967295"
  by (simp add: unsigned_minus_1_eq_mask mask_eq_exp_minus_1)

lemmas resolver_defs = ClassicPoint_def angle_switch_def angle_90_def angle_180_def angle_360_def
  warn_def set_SectorType_def set_SectorRadius_def

lemmas run_defs = TaskProcess_def TaskLoop_step TaskLoop_done TaskPoint_def SectorProcess_def
  resolver_defs uniform_warning_def initial_state_def initial_settings_def waypoint_name_def

lemmas example_defs = example_task_def example_target_def example_coordConv_def classic_point_def

section \<open>The loop never leaves the task point array\<close>

text \<open>
  One round of the loop on a state whose array has entry \<open>i - 1\<close>: it returns a state,
  the array keeps its length, one waypoint is added, and neither the AAT flag nor a zero
  \<^verbatim>\<open>FinishMinHeight\<close> changes.
\<close>

lemma ClassicPoint_frame:
  "AATEnabled (settingsTask (ClassicPoint tpNum i wp radius angle height r)) =
     AATEnabled (settingsTask r) \<and>
   errors (ClassicPoint tpNum i wp radius angle height r) = errors r \<and>
   (FinishMinHeight (settingsTask r) = 0 \<longrightarrow>
      FinishMinHeight (settingsTask (ClassicPoint tpNum i wp radius angle height r)) = 0)"
  by (simp add: resolver_defs Let_def)

lemma TaskPoint_total:
  assumes "i - 1 < length (taskPointArray s)"
  shows "\<exists>s'. TaskPoint tgt taskParser coordConv g wpPath tpNum i s = Inr s' \<and>
    length (taskPointArray s') = length (taskPointArray s) \<and>
    length (waypointArray s') = Suc (length (waypointArray s)) \<and>
    AATEnabled (settingsTask (res s')) = AATEnabled (settingsTask (res s)) \<and>
    (FinishMinHeight (settingsTask (res s)) = 0 \<longrightarrow> FinishMinHeight (settingsTask (res s')) = 0)"
  using assms by (simp add: TaskPoint_def SectorProcess_def Let_def ClassicPoint_frame warn_def)

lemma TaskLoop_total:
  assumes "1 \<le> i" and "unat tpNum - 1 \<le> length (taskPointArray s)"
  shows "\<exists>s'. TaskLoop tgt taskParser coordConv g wpPath tpNum i s = Inr s' \<and>
    length (taskPointArray s') = length (taskPointArray s) \<and>
    length (waypointArray s') = length (waypointArray s) + (unat tpNum - i) \<and>
    AATEnabled (settingsTask (res s')) = AATEnabled (settingsTask (res s)) \<and>
    (FinishMinHeight (settingsTask (res s)) = 0 \<longrightarrow> FinishMinHeight (settingsTask (res s')) = 0)"
  using assms
proof (induction tgt taskParser coordConv g wpPath tpNum i s rule: TaskLoop.induct)
  case (1 tgt taskParser coordConv g wpPath tpNum i s)
  show ?case
  proof (cases "i < unat tpNum")
    case False
    then show ?thesis by (simp add: TaskLoop_done)
  next
    case True
    with "1.prems" have "i - 1 < length (taskPointArray s)" by arith
    from TaskPoint_total [OF this, of tgt taskParser coordConv g wpPath tpNum]
    obtain s1 where s1: "TaskPoint tgt taskParser coordConv g wpPath tpNum i s = Inr s1"
      and len: "length (taskPointArray s1) = length (taskPointArray s)"
      and wps: "length (waypointArray s1) = Suc (length (waypointArray s))"
      and aat: "AATEnabled (settingsTask (res s1)) = AATEnabled (settingsTask (res s))"
      and fin: "FinishMinHeight (settingsTask (res s)) = 0 \<longrightarrow>
                FinishMinHeight (settingsTask (res s1)) = 0"
      by blast
    have "1 \<le> Suc i" by simp
    moreover have "unat tpNum - 1 \<le> length (taskPointArray s1)" using "1.prems" len by simp
    ultimately obtain s' where
      s': "TaskLoop tgt taskParser coordConv g wpPath tpNum (Suc i) s1 = Inr s'"
      and len': "length (taskPointArray s') = length (taskPointArray s1)"
      and wps': "length (waypointArray s') = length (waypointArray s1) + (unat tpNum - Suc i)"
      and aat': "AATEnabled (settingsTask (res s')) = AATEnabled (settingsTask (res s1))"
      and fin': "FinishMinHeight (settingsTask (res s1)) = 0 \<longrightarrow>
                 FinishMinHeight (settingsTask (res s')) = 0"
      using "1.IH" [OF True s1] by blast
    have "TaskLoop tgt taskParser coordConv g wpPath tpNum i s = Inr s'"
      using True s1 s' by (simp add: TaskLoop_step)
    moreover have "length (waypointArray s') = length (waypointArray s) + (unat tpNum - i)"
      using wps wps' True by simp
    ultimately show ?thesis using len len' aat aat' fin fin' by simp
  qed
qed

text \<open>
  Past the capacity check the loop returns a state and the translation a result, whose
  parts are those of the state.
\<close>

lemma TaskProcess_Inr:
  assumes "\<not> Count taskParser - 1 > maxTaskPoints"
  shows "\<exists>s r. TaskLoop tgt taskParser coordConv g (path_join tgt prefix ''Condor.dat'')
               (Count taskParser) 1 (initial_state tgt profileParser aatTime maxTaskPoints) = Inr s \<and>
             TaskProcess tgt profileParser taskParser coordConv aatTime maxTaskPoints maxStartPoints
               g prefix = Inr r \<and>
             settings r = settingsTask (uniform_warning (res s)) \<and>
             profile r = set_profile tgt (settings r) profileParser \<and>
             taskPoints r = taskPointArray s \<and>
             waypoints r = waypointArray s \<and>
             warning_sink r = warnings (uniform_warning (res s)) \<and>
             error_sink r = errors (uniform_warning (res s)) \<and>
             length (taskPointArray s) = unat maxTaskPoints \<and>
             length (waypointArray s) = unat (Count taskParser) - 1 \<and>
             FinishMinHeight (settingsTask (res s)) = 0"
proof -
  let ?s0 = "initial_state tgt profileParser aatTime maxTaskPoints"
  have len0: "length (taskPointArray ?s0) = unat maxTaskPoints"
    and wp0: "length (waypointArray ?s0) = 0"
    and fin0: "FinishMinHeight (settingsTask (res ?s0)) = 0"
    by (simp_all add: initial_state_def initial_settings_def)
  have "unat (Count taskParser) - 1 \<le> unat (Count taskParser - 1)"
    by (cases "Count taskParser = 0") (simp_all add: unat_minus_one)
  moreover have "unat (Count taskParser - 1) \<le> unat maxTaskPoints"
    using assms by (simp add: word_less_nat_alt)
  ultimately have "unat (Count taskParser) - 1 \<le> length (taskPointArray ?s0)"
    using len0 by simp
  from TaskLoop_total [OF le_refl this, of tgt taskParser coordConv g
      "path_join tgt prefix ''Condor.dat''"]
  obtain s where s: "TaskLoop tgt taskParser coordConv g (path_join tgt prefix ''Condor.dat'')
               (Count taskParser) 1 ?s0 = Inr s"
    and len: "length (taskPointArray s) = length (taskPointArray ?s0)"
    and wps: "length (waypointArray s) = length (waypointArray ?s0) + (unat (Count taskParser) - 1)"
    and fin: "FinishMinHeight (settingsTask (res ?s0)) = 0 \<longrightarrow>
              FinishMinHeight (settingsTask (res s)) = 0"
    by blast
  show ?thesis
    using assms s len wps fin len0 wp0 fin0
    by (intro exI [of _ s]) (simp add: TaskProcess_def Let_def)
qed

lemma uniform_warning_settings: "settingsTask (uniform_warning r) = settingsTask r"
  by (simp add: uniform_warning_def warn_def)

section \<open>Capacity and totality\<close>

text \<open>
  What the capacity check and the loop do at a task that declares at least one point.
  Write \<open>N\<close> for \<^verbatim>\<open>Count\<close>. If \<open>N - 1\<close> (as a number, not wrapped) exceeds the capacity
  \<^verbatim>\<open>maxTaskPoints\<close>, the translation stops with the fatal capacity error. If \<open>N \<noteq> 0\<close> and
  \<open>N - 1\<close> does not exceed the capacity, the translation returns a result, whatever the
  sector types, angles and radii of the points are; the result holds one waypoint for every
  point but the takeoff, and the task point array has the size of the capacity. Inputs are
  well-formed in the sense of \<open>task_file\<close>: every key is there and every number is a
  number.
\<close>

theorem TaskProcess_capacity_and_totality:
  "(uint maxTaskPoints < uint (Count taskParser) - 1 \<longrightarrow>
      TaskProcess tgt profileParser taskParser coordConv aatTime maxTaskPoints maxStartPoints
        generateWPFile wpOutputPathPrefix =
      Inl (TooManyWaypoints (Count taskParser - 1) maxTaskPoints)) \<and>
   (Count taskParser \<noteq> 0 \<and> uint (Count taskParser) - 1 \<le> uint maxTaskPoints \<longrightarrow>
      (\<exists>r. TaskProcess tgt profileParser taskParser coordConv aatTime maxTaskPoints maxStartPoints
              generateWPFile wpOutputPathPrefix = Inr r \<and>
           length (waypoints r) = unat (Count taskParser) - 1 \<and>
           length (taskPoints r) = unat maxTaskPoints))"
proof (intro conjI impI)
  assume "uint maxTaskPoints < uint (Count taskParser) - 1"
  then have "int (unat maxTaskPoints) < int (unat (Count taskParser)) - 1"
    by (simp only: uint_nat)
  then have "unat (Count taskParser) \<noteq> 0 \<and> unat maxTaskPoints < unat (Count taskParser) - 1"
    by arith
  then have "maxTaskPoints < Count taskParser - 1"
    by (simp add: word_less_nat_alt unat_minus_one unat_eq_0)
  then show "TaskProcess tgt profileParser taskParser coordConv aatTime maxTaskPoints maxStartPoints
        generateWPFile wpOutputPathPrefix =
      Inl (TooManyWaypoints (Count taskParser - 1) maxTaskPoints)"
    by (simp add: TaskProcess_def)
next
  assume a: "Count taskParser \<noteq> 0 \<and> uint (Count taskParser) - 1 \<le> uint maxTaskPoints"
  then have "int (unat (Count taskParser)) - 1 \<le> int (unat maxTaskPoints)"
    by (simp only: uint_nat)
  then have "unat (Count taskParser) - 1 \<le> unat maxTaskPoints"
    by arith
  with a have cap: "\<not> Count taskParser - 1 > maxTaskPoints"
    by (simp add: word_less_nat_alt unat_minus_one)
  from TaskProcess_Inr [OF cap, where tgt = tgt and g = generateWPFile
      and prefix = wpOutputPathPrefix and profileParser = profileParser and aatTime = aatTime
      and coordConv = coordConv and maxStartPoints = maxStartPoints]
  obtain s :: loop_state and r where
    run: "TaskProcess tgt profileParser taskParser coordConv aatTime maxTaskPoints
             maxStartPoints generateWPFile wpOutputPathPrefix = Inr r"
    and "taskPoints r = taskPointArray s" and "waypoints r = waypointArray s"
    and "length (taskPointArray s) = unat maxTaskPoints"
    and "length (waypointArray s) = unat (Count taskParser) - 1"
    by blast
  then show "\<exists>r. TaskProcess tgt profileParser taskParser coordConv aatTime maxTaskPoints
              maxStartPoints generateWPFile wpOutputPathPrefix = Inr r \<and>
           length (waypoints r) = unat (Count taskParser) - 1 \<and>
           length (taskPoints r) = unat maxTaskPoints"
    by simp
qed

text \<open>
  The theorem at a task that declares 12 points for a capacity of 10, and at a task of
  takeoff, start, one turnpoint and finish: the first stops, the second returns its three
  waypoints.
\<close>

theorem TaskProcess_capacity_and_totality_witness:
  "(uint (10 :: unsigned) < uint (Count (example_task 12 [])) - 1 \<and>
    TaskProcess example_target Map.empty (example_task 12 []) example_coordConv 0 10 10 False ''out'' =
      Inl (TooManyWaypoints 11 10)) \<and>
   (Count (example_task 4 [classic_point 0 0, classic_point 90 500, classic_point 360 1000,
                           classic_point 180 400]) \<noteq> 0 \<and>
    uint (Count (example_task 4 [classic_point 0 0, classic_point 90 500, classic_point 360 1000,
                                 classic_point 180 400])) - 1 \<le> uint (10 :: unsigned) \<and>
    (\<exists>r. TaskProcess example_target Map.empty
            (example_task 4 [classic_point 0 0, classic_point 90 500, classic_point 360 1000,
                             classic_point 180 400])
            example_coordConv 0 10 10 False ''out'' = Inr r \<and>
          length (waypoints r) = 3 \<and> length (taskPoints r) = 10))"
  using TaskProcess_capacity_and_totality [of 10 "example_task 12 []" example_target Map.empty
      example_coordConv 0 10 False "''out''"]
    TaskProcess_capacity_and_totality [of 10
      "example_task 4 [classic_point 0 0, classic_point 90 500, classic_point 360 1000,
                       classic_point 180 400]"
      example_target Map.empty example_coordConv 0 10 False "''out''"]
  by (simp add: example_task_def)

text \<open>
  Claim C2: the translation stops with the capacity error if the number of points without
  the takeoff exceeds the capacity, and it completes for every well-formed task whose point
  count does not exceed the capacity. The code does not do so at the task that declares no
  point: 0 points do not exceed a capacity of 10, but \<^verbatim>\<open>tpNum - 1\<close> is computed in
  \<^verbatim>\<open>unsigned\<close>, where \<open>0 - 1\<close> wraps to \<open>4294967295\<close>, which is greater than 10, and the
  translation stops with the capacity error reporting \<open>4294967295\<close> waypoints. The
  neighbouring task, which declares the takeoff and nothing else, is translated: the result
  has no waypoint.
\<close>

theorem TaskProcess_not_total_at_zero_count:
  "TaskProcess example_target Map.empty (example_task 0 []) example_coordConv 0 10 10 False ''out'' =
     Inl (TooManyWaypoints 4294967295 10) \<and>
   map_sum id waypoints
     (TaskProcess example_target Map.empty (example_task 1 [classic_point 0 0]) example_coordConv
        0 10 10 False ''out'') = Inr []"
  by (simp add: TaskProcess_def example_task_def TaskLoop_done initial_state_def
      uniform_warning_def)

section \<open>A task that declares no point\<close>

text \<open>
  Claim C10, as amended. If \<^verbatim>\<open>Count\<close> is 0, the capacity check computes \<open>0 - 1\<close> in
  \<^verbatim>\<open>unsigned\<close>, which is \<open>2 ^ 32 - 1 = 4294967295\<close>, and the translation stops with the
  capacity error for every capacity but the largest \<^verbatim>\<open>unsigned\<close> itself.
\<close>

theorem zero_count_capacity_error:
  assumes "Count taskParser = 0" and "maxTaskPoints \<noteq> - 1"
  shows "TaskProcess tgt profileParser taskParser coordConv aatTime maxTaskPoints maxStartPoints
           generateWPFile wpOutputPathPrefix = Inl (TooManyWaypoints (- 1) maxTaskPoints) \<and>
         unat (- 1 :: unsigned) = 4294967295"
proof -
  have "maxTaskPoints < - 1"
    using assms(2) by (simp add: word_order.not_eq_extremum)
  then show ?thesis using assms(1) by (simp add: TaskProcess_def unat_max_unsigned)
qed

theorem zero_count_capacity_error_witness:
  "Count (example_task 0 []) = 0 \<and> (10 :: unsigned) \<noteq> - 1 \<and>
   TaskProcess example_target Map.empty (example_task 0 []) example_coordConv 0 10 10 False ''out'' =
     Inl (TooManyWaypoints (- 1) 10)"
  using zero_count_capacity_error [of "example_task 0 []" 10 example_target Map.empty
      example_coordConv 0 10 False "''out''"]
  by (simp add: example_task_def)

text \<open>
  Claim C10 as it is written (for every capacity) fails at the capacity \<open>4294967295\<close>:
  nothing is greater, so the check passes and the capacity error is not thrown. (In the
  model the loop then has no round and the translation returns a result with no waypoint;
  whether an array of that size can be allocated is outside the model.)
\<close>

theorem zero_count_largest_capacity_no_error:
  "TaskProcess example_target Map.empty (example_task 0 []) example_coordConv 0 4294967295 10
     False ''out'' \<noteq> Inl (TooManyWaypoints 4294967295 4294967295) \<and>
   map_sum id waypoints
     (TaskProcess example_target Map.empty (example_task 0 []) example_coordConv 0 4294967295 10
        False ''out'') = Inr []"
  by (simp add: TaskProcess_def example_task_def TaskLoop_done initial_state_def
      uniform_warning_def)

section \<open>The finish height\<close>

text \<open>
  Claim C9. Whenever the translation returns a result, \<^verbatim>\<open>FinishMinHeight\<close> of the settings
  is 0, whatever height the finish point declares; the profile holds the text \<open>0\<close> under
  the key \<^verbatim>\<open>FinishMinHeight\<close>, and the same value under \<^verbatim>\<open>FAIFinishHeight\<close>.
\<close>

theorem FinishMinHeight_is_zero:
  assumes "TaskProcess tgt profileParser taskParser coordConv aatTime maxTaskPoints maxStartPoints
             generateWPFile wpOutputPathPrefix = Inr r"
  shows "FinishMinHeight (settings r) = 0 \<and>
         profile r ''FinishMinHeight'' = Some ''0'' \<and>
         profile r ''FAIFinishHeight'' = profile r ''FinishMinHeight''"
proof -
  have cap: "\<not> Count taskParser - 1 > maxTaskPoints"
    using assms by (auto simp: TaskProcess_def Let_def)
  from TaskProcess_Inr [OF cap, where tgt = tgt and g = generateWPFile
      and prefix = wpOutputPathPrefix and profileParser = profileParser and aatTime = aatTime
      and coordConv = coordConv and maxStartPoints = maxStartPoints]
  obtain s :: loop_state and r' where
    run: "TaskProcess tgt profileParser taskParser coordConv aatTime maxTaskPoints
             maxStartPoints generateWPFile wpOutputPathPrefix = Inr r'"
    and set': "settings r' = settingsTask (uniform_warning (res s))"
    and prof': "profile r' = set_profile tgt (settings r') profileParser"
    and fin: "FinishMinHeight (settingsTask (res s)) = 0"
    by blast
  have "r' = r" using run assms by simp
  with set' prof' have set: "settings r = settingsTask (uniform_warning (res s))"
    and prof: "profile r = set_profile tgt (settings r) profileParser"
    by simp_all
  have fin': "FinishMinHeight (settings r) = 0"
    using fin set by (simp add: uniform_warning_settings)
  show ?thesis
    using prof fin' by (simp add: set_profile_def Convert_digit digit_def)
qed

text \<open>The theorem at a task whose finish point declares the height 1500.\<close>

theorem FinishMinHeight_is_zero_witness:
  "TPHeight (TP (example_task 4 [classic_point 0 0, classic_point 90 500, classic_point 360 1000,
                                 classic_point 180 400]) 3) = 1500 \<and>
   (\<exists>r. TaskProcess example_target Map.empty
          (example_task 4 [classic_point 0 0, classic_point 90 500, classic_point 360 1000,
                           classic_point 180 400])
          example_coordConv 0 10 10 False ''out'' = Inr r \<and>
       FinishMinHeight (settings r) = 0 \<and>
       profile r ''FinishMinHeight'' = Some ''0'' \<and>
       profile r ''FAIFinishHeight'' = profile r ''FinishMinHeight'')"
proof -
  have "\<not> Count (example_task 4 [classic_point 0 0, classic_point 90 500, classic_point 360 1000,
                           classic_point 180 400]) - 1 > (10 :: unsigned)"
    by (simp add: example_task_def)
  from TaskProcess_Inr [OF this, where tgt = example_target and g = False and prefix = "''out''"
      and profileParser = Map.empty and aatTime = 0 and coordConv = example_coordConv
      and maxStartPoints = 10]
  obtain r where "TaskProcess example_target Map.empty
          (example_task 4 [classic_point 0 0, classic_point 90 500, classic_point 360 1000,
                           classic_point 180 400])
          example_coordConv 0 10 10 False ''out'' = Inr r"
    by blast
  with FinishMinHeight_is_zero [OF this] show ?thesis
    by (auto simp: example_task_def classic_point_def)
qed

section \<open>Rounds of the loop on the mapping of the sector types\<close>

text \<open>
  A point of classic sector type outside the AAT branch: the round returns a state whose
  \<open>res\<close> is \<open>ClassicPoint\<close> of the old one.
\<close>

lemma TaskPoint_classic:
  assumes "i - 1 < length (taskPointArray s)"
    and "TPSectorType (TP taskParser i) = SECTOR_CLASSIC tgt"
    and "\<not> (AATEnabled (settingsTask (res s)) \<and> 1 < i \<and> i < unat (tpNum - 1))"
  shows "\<exists>s'. TaskPoint tgt taskParser coordConv g wpPath tpNum i s = Inr s' \<and>
    res s' = ClassicPoint tpNum i (waypoint_name tpNum i (TPName (TP taskParser i)))
       (TPRadius (TP taskParser i)) (TPAngle (TP taskParser i)) (TPHeight (TP taskParser i)) (res s) \<and>
    length (taskPointArray s') = length (taskPointArray s)"
  using assms by (auto simp: TaskPoint_def SectorProcess_def Let_def)



text \<open>One round of the loop, and the result of the translation from that of the loop.\<close>

lemma TaskLoop_next:
  assumes "i < unat tpNum"
    and "TaskPoint tgt taskParser coordConv g wpPath tpNum i s = Inr s'"
    and "j = i + 1"
  shows "TaskLoop tgt taskParser coordConv g wpPath tpNum i s =
         TaskLoop tgt taskParser coordConv g wpPath tpNum j s'"
  using assms by (simp add: TaskLoop_step)

lemma TaskProcess_of_loop:
  assumes "\<not> tpNum - 1 > maxTaskPoints" and "Count taskParser = tpNum"
    and "TaskLoop tgt taskParser coordConv g (path_join tgt prefix ''Condor.dat'') tpNum 1
           (initial_state tgt profileParser aatTime maxTaskPoints) = Inr s"
  shows "\<exists>r. TaskProcess tgt profileParser taskParser coordConv aatTime maxTaskPoints
                maxStartPoints g prefix = Inr r \<and>
             settings r = settingsTask (res s) \<and>
             warning_sink r = warnings (uniform_warning (res s)) \<and>
             error_sink r = errors (res s)"
  using assms by (simp add: TaskProcess_def Let_def uniform_warning_def warn_def)

section \<open>Turnpoints that disagree\<close>






section \<open>The round trip of a three point task\<close>

text \<open>
  Claim C5. A task of takeoff, start (angle 90, radius 500), one turnpoint (angle 360,
  radius 1000) and finish (angle 180, radius 400), all of classic sector type, translated
  with AAT disabled (\<open>aatTime = 0\<close>) and room for three task points: the start is a sector
  of radius 500, the sectors are circles of radius 1000, the finish is a line of radius
  400, and there is no warning and no reported error.
\<close>

theorem round_trip_three_points:
  assumes "Count taskParser = 4"
    and "TPSectorType (TP taskParser 1) = SECTOR_CLASSIC tgt"
    and "TPAngle (TP taskParser 1) = 90" and "TPRadius (TP taskParser 1) = 500"
    and "TPSectorType (TP taskParser 2) = SECTOR_CLASSIC tgt"
    and "TPAngle (TP taskParser 2) = 360" and "TPRadius (TP taskParser 2) = 1000"
    and "TPSectorType (TP taskParser 3) = SECTOR_CLASSIC tgt"
    and "TPAngle (TP taskParser 3) = 180" and "TPRadius (TP taskParser 3) = 400"
    and "3 \<le> unat maxTaskPoints"
  shows "\<exists>r. TaskProcess tgt profileParser taskParser coordConv 0 maxTaskPoints maxStartPoints
                generateWPFile wpOutputPathPrefix = Inr r \<and>
             StartType (settings r) = START_SECTOR \<and> StartRadius (settings r) = 500 \<and>
             SectorType (settings r) = AST_CIRCLE \<and> SectorRadius (settings r) = 1000 \<and>
             FinishType (settings r) = FINISH_LINE \<and> FinishRadius (settings r) = 400 \<and>
             warning_sink r = [] \<and> error_sink r = []"
proof -
  let ?s0 = "initial_state tgt profileParser 0 maxTaskPoints"
  let ?p = "path_join tgt wpOutputPathPrefix ''Condor.dat''"
  let ?TP = "TaskPoint tgt taskParser coordConv generateWPFile ?p 4"
  let ?L = "TaskLoop tgt taskParser coordConv generateWPFile ?p 4"
  have len0: "length (taskPointArray ?s0) = unat maxTaskPoints"
    and aat0: "\<not> AATEnabled (settingsTask (res ?s0))"
    and val0: "tpsValid (res ?s0)"
    and w0: "warnings (res ?s0) = []"
    and e0: "errors (res ?s0) = []"
    by (simp_all add: initial_state_def initial_settings_def)
  have "1 - 1 < length (taskPointArray ?s0)" using len0 assms(11) by simp
  from TaskPoint_classic [OF this assms(2), of 4 coordConv generateWPFile ?p] aat0
  obtain s1 where 1: "?TP 1 ?s0 = Inr s1"
    and len1: "length (taskPointArray s1) = unat maxTaskPoints"
    and r1: "res s1 = ClassicPoint 4 1 (waypoint_name 4 1 (TPName (TP taskParser 1))) 500 90
                        (TPHeight (TP taskParser 1)) (res ?s0)"
    using len0 assms(3,4) by auto
  have aat1: "\<not> AATEnabled (settingsTask (res s1))"
    using aat0 by (simp add: r1 ClassicPoint_frame)
  have "2 - 1 < length (taskPointArray s1)" using len1 assms(11) by simp
  from TaskPoint_classic [OF this assms(5), of 4 coordConv generateWPFile ?p] aat1
  obtain s2 where 2: "?TP 2 s1 = Inr s2"
    and len2: "length (taskPointArray s2) = unat maxTaskPoints"
    and r2: "res s2 = ClassicPoint 4 2 (waypoint_name 4 2 (TPName (TP taskParser 2))) 1000 360
                        (TPHeight (TP taskParser 2)) (res s1)"
    using len1 assms(6,7) by auto
  have aat2: "\<not> AATEnabled (settingsTask (res s2))"
    using aat1 by (simp add: r2 ClassicPoint_frame)
  have "3 - 1 < length (taskPointArray s2)" using len2 assms(11) by simp
  from TaskPoint_classic [OF this assms(8), of 4 coordConv generateWPFile ?p] aat2
  obtain s3 where 3: "?TP 3 s2 = Inr s3"
    and r3: "res s3 = ClassicPoint 4 3 (waypoint_name 4 3 (TPName (TP taskParser 3))) 400 180
                        (TPHeight (TP taskParser 3)) (res s2)"
    using len2 assms(9,10) by auto
  have fin: "StartType (settingsTask (res s3)) = START_SECTOR"
    "StartRadius (settingsTask (res s3)) = 500"
    "SectorType (settingsTask (res s3)) = AST_CIRCLE"
    "SectorRadius (settingsTask (res s3)) = 1000"
    "FinishType (settingsTask (res s3)) = FINISH_LINE"
    "FinishRadius (settingsTask (res s3)) = 400"
    "warnings (res s3) = []" "errors (res s3) = []" "tpsValid (res s3)"
    using val0 w0 e0 by (simp_all add: r3 r2 r1 resolver_defs Let_def)
  have "?L 1 ?s0 = ?L 2 s1"
    by (rule TaskLoop_next [OF _ 1]) simp_all
  also have "\<dots> = ?L 3 s2"
    by (rule TaskLoop_next [OF _ 2]) simp_all
  also have "\<dots> = ?L 4 s3"
    by (rule TaskLoop_next [OF _ 3]) simp_all
  also have "\<dots> = Inr s3"
    by (simp add: TaskLoop_done)
  finally have loop: "?L 1 ?s0 = Inr s3" .
  have cap: "\<not> (4 - 1 :: unsigned) > maxTaskPoints"
    using assms(11) by (simp add: word_less_nat_alt)
  from TaskProcess_of_loop [OF cap assms(1) loop, of maxStartPoints]
  obtain r where "TaskProcess tgt profileParser taskParser coordConv 0 maxTaskPoints maxStartPoints
          generateWPFile wpOutputPathPrefix = Inr r"
    and "settings r = settingsTask (res s3)"
    and "warning_sink r = warnings (uniform_warning (res s3))"
    and "error_sink r = errors (res s3)"
    by blast
  then show ?thesis
    using fin by (simp add: uniform_warning_def)
qed

theorem round_trip_three_points_witness:
  "\<exists>r. TaskProcess example_target Map.empty
          (example_task 4 [classic_point 0 0, classic_point 90 500, classic_point 360 1000,
                           classic_point 180 400])
          example_coordConv 0 10 10 False ''out'' = Inr r \<and>
       StartType (settings r) = START_SECTOR \<and> StartRadius (settings r) = 500 \<and>
       SectorType (settings r) = AST_CIRCLE \<and> SectorRadius (settings r) = 1000 \<and>
       FinishType (settings r) = FINISH_LINE \<and> FinishRadius (settings r) = 400 \<and>
       warning_sink r = [] \<and> error_sink r = []"
  by (rule round_trip_three_points) (simp_all add: example_defs)

section \<open>Angle 270\<close>

text \<open>
  Claim C6, as amended. Take a point of classic sector type with angle 270 that is handled
  by the branch for start, finish and regular turnpoints, that is, the start, the finish,
  or a turnpoint of a task with AAT disabled. The warning about the unsupported angle is
  emitted, and the point is then handled exactly as a point of angle 360 is: the start
  type becomes circle at the start, the finish type becomes circle at the finish, and at
  a turnpoint the sector type becomes circle unless an earlier turnpoint set another type.
  (A turnpoint of an AAT task is written as an AAT sector instead, without a warning.)
\<close>

theorem angle_270_as_360:
  assumes "i - 1 < length (taskPointArray s)"
    and "TPSectorType (TP taskParser i) = SECTOR_CLASSIC tgt"
    and "TPAngle (TP taskParser i) = 270"
    and "\<not> (AATEnabled (settingsTask (res s)) \<and> 1 < i \<and> i < unat (tpNum - 1))"
  shows "\<exists>s'. TaskPoint tgt taskParser coordConv generateWPFile wpPath tpNum i s = Inr s' \<and>
    res s' = ClassicPoint tpNum i (waypoint_name tpNum i (TPName (TP taskParser i)))
               (TPRadius (TP taskParser i)) 360 (TPHeight (TP taskParser i))
               (warn (Angle270NotSupported (waypoint_name tpNum i (TPName (TP taskParser i)))) (res s)) \<and>
    Angle270NotSupported (waypoint_name tpNum i (TPName (TP taskParser i))) \<in> set (warnings (res s')) \<and>
    (i = 1 \<longrightarrow> StartType (settingsTask (res s')) = START_CIRCLE) \<and>
    (i \<noteq> 1 \<and> i = unat (tpNum - 1) \<longrightarrow> FinishType (settingsTask (res s')) = FINISH_CIRCLE) \<and>
    (i \<noteq> 1 \<and> i \<noteq> unat (tpNum - 1) \<and> \<not> (2 < i \<and> SectorType (settingsTask (res s)) \<noteq> AST_CIRCLE) \<longrightarrow>
       SectorType (settingsTask (res s')) = AST_CIRCLE)"
proof -
  let ?wp = "waypoint_name tpNum i (TPName (TP taskParser i))"
  let ?r = "TPRadius (TP taskParser i)"
  let ?h = "TPHeight (TP taskParser i)"
  from TaskPoint_classic [OF assms(1,2,4), of coordConv generateWPFile wpPath]
  obtain s' where run: "TaskPoint tgt taskParser coordConv generateWPFile wpPath tpNum i s = Inr s'"
    and r: "res s' = ClassicPoint tpNum i ?wp ?r 270 ?h (res s)"
    using assms(3) by auto
  have eq: "ClassicPoint tpNum i ?wp ?r 270 ?h (res s) =
            ClassicPoint tpNum i ?wp ?r 360 ?h (warn (Angle270NotSupported ?wp) (res s))"
    by (simp add: ClassicPoint_def angle_switch_def)
  have w: "Angle270NotSupported ?wp \<in> set (warnings (ClassicPoint tpNum i ?wp ?r 360 ?h (warn (Angle270NotSupported ?wp) (res s))))"
    by (simp add: resolver_defs Let_def)
  have st: "i = 1 \<longrightarrow> StartType (settingsTask (ClassicPoint tpNum i ?wp ?r 360 ?h (warn (Angle270NotSupported ?wp) (res s)))) = START_CIRCLE"
    by (simp add: resolver_defs Let_def)
  have fi: "i \<noteq> 1 \<and> i = unat (tpNum - 1) \<longrightarrow> FinishType (settingsTask (ClassicPoint tpNum i ?wp ?r 360 ?h (warn (Angle270NotSupported ?wp) (res s)))) = FINISH_CIRCLE"
    by (simp add: resolver_defs Let_def)
  have se: "i \<noteq> 1 \<and> i \<noteq> unat (tpNum - 1) \<and> \<not> (2 < i \<and> SectorType (settingsTask (res s)) \<noteq> AST_CIRCLE) \<longrightarrow>
       SectorType (settingsTask (ClassicPoint tpNum i ?wp ?r 360 ?h (warn (Angle270NotSupported ?wp) (res s)))) = AST_CIRCLE"
    by (auto simp: resolver_defs Let_def)
  show ?thesis using run r eq w st fi se by simp
qed

text \<open>The theorem at the start, at a turnpoint with AAT disabled, and at the finish.\<close>

theorem angle_270_as_360_witness:
  "(\<exists>s'. TaskPoint example_target
           (example_task 4 [classic_point 0 0, classic_point 270 500, classic_point 270 1000,
                            classic_point 270 400])
           example_coordConv False ''out'' 4 1 (initial_state example_target Map.empty 60 10) = Inr s' \<and>
         warnings (res s') = [Angle270NotSupported ''S:TP''] \<and>
         StartType (settingsTask (res s')) = START_CIRCLE) \<and>
   (\<exists>s'. TaskPoint example_target
           (example_task 4 [classic_point 0 0, classic_point 270 500, classic_point 270 1000,
                            classic_point 270 400])
           example_coordConv False ''out'' 4 2 (initial_state example_target Map.empty 0 10) = Inr s' \<and>
         warnings (res s') = [Angle270NotSupported ''1:TP''] \<and>
         SectorType (settingsTask (res s')) = AST_CIRCLE \<and>
         SectorRadius (settingsTask (res s')) = 1000) \<and>
   (\<exists>s'. TaskPoint example_target
           (example_task 4 [classic_point 0 0, classic_point 270 500, classic_point 270 1000,
                            classic_point 270 400])
           example_coordConv False ''out'' 4 3 (initial_state example_target Map.empty 60 10) = Inr s' \<and>
         warnings (res s') = [Angle270NotSupported ''F:TP''] \<and>
         FinishType (settingsTask (res s')) = FINISH_CIRCLE)"
proof -
  let ?t = "example_task 4 [classic_point 0 0, classic_point 270 500, classic_point 270 1000,
                            classic_point 270 400]"
  note simps = example_defs initial_state_def initial_settings_def waypoint_name_def
    Convert_digit digit_def resolver_defs
  have A: "\<exists>s'. TaskPoint example_target ?t example_coordConv False ''out'' 4 1
                 (initial_state example_target Map.empty 60 10) = Inr s' \<and>
         warnings (res s') = [Angle270NotSupported ''S:TP''] \<and>
         StartType (settingsTask (res s')) = START_CIRCLE"
    using angle_270_as_360 [where i = 1 and s = "initial_state example_target Map.empty 60 10"
        and tpNum = 4 and taskParser = ?t and tgt = example_target
        and coordConv = example_coordConv and generateWPFile = False and wpPath = "''out''"]
    by (auto simp: simps)
  have B: "\<exists>s'. TaskPoint example_target ?t example_coordConv False ''out'' 4 2
                 (initial_state example_target Map.empty 0 10) = Inr s' \<and>
         warnings (res s') = [Angle270NotSupported ''1:TP''] \<and>
         SectorType (settingsTask (res s')) = AST_CIRCLE \<and>
         SectorRadius (settingsTask (res s')) = 1000"
    using angle_270_as_360 [where i = 2 and s = "initial_state example_target Map.empty 0 10"
        and tpNum = 4 and taskParser = ?t and tgt = example_target
        and coordConv = example_coordConv and generateWPFile = False and wpPath = "''out''"]
    by (auto simp: simps)
  have C: "\<exists>s'. TaskPoint example_target ?t example_coordConv False ''out'' 4 3
                 (initial_state example_target Map.empty 60 10) = Inr s' \<and>
         warnings (res s') = [Angle270NotSupported ''F:TP''] \<and>
         FinishType (settingsTask (res s')) = FINISH_CIRCLE"
    using angle_270_as_360 [where i = 3 and s = "initial_state example_target Map.empty 60 10"
        and tpNum = 4 and taskParser = ?t and tgt = example_target
        and coordConv = example_coordConv and generateWPFile = False and wpPath = "''out''"]
    by (auto simp: simps)
  from A B C show ?thesis by blast
qed

text \<open>
  Claim C6 as it is written (every point of angle 270, always) fails at the turnpoint of
  a task with AAT enabled: the translation emits no warning at all.
\<close>

theorem angle_270_AAT_no_warning:
  "map_sum id warning_sink
     (TaskProcess example_target Map.empty
        (example_task 4 [classic_point 0 0, classic_point 90 500, classic_point 270 1000,
                         classic_point 180 400])
        example_coordConv 60 10 10 False ''out'') = Inr []"
  by (simp add: run_defs example_defs Let_def)

section \<open>Angles without a mapping\<close>

text \<open>
  Claim C7. A regular turnpoint (not the start, not the finish, AAT disabled) of classic
  sector type whose angle is none of 90, 180, 270 and 360: the round of the loop returns a
  state with the same \<open>res\<close>, that is, the same settings (sector type and radius among
  them), the same \<^verbatim>\<open>tpsValid\<close>, no new warning and no new error.
\<close>

theorem unmapped_angle_ignored:
  assumes "i - 1 < length (taskPointArray s)"
    and "i \<noteq> 1" and "i \<noteq> unat (tpNum - 1)"
    and "\<not> AATEnabled (settingsTask (res s))"
    and "TPSectorType (TP taskParser i) = SECTOR_CLASSIC tgt"
    and "TPAngle (TP taskParser i) \<notin> {90, 180, 270, 360}"
  shows "\<exists>s'. TaskPoint tgt taskParser coordConv generateWPFile wpPath tpNum i s = Inr s' \<and>
              res s' = res s"
  using assms by (auto simp: TaskPoint_def SectorProcess_def ClassicPoint_def angle_switch_def Let_def)

theorem unmapped_angle_ignored_witness:
  "TPAngle (TP (example_task 4 [classic_point 0 0, classic_point 90 500, classic_point 45 700,
                                classic_point 180 400]) 2) \<notin> {90, 180, 270, 360} \<and>
   (\<exists>s'. TaskPoint example_target
          (example_task 4 [classic_point 0 0, classic_point 90 500, classic_point 45 700,
                           classic_point 180 400])
          example_coordConv False ''out'' 4 2 (initial_state example_target Map.empty 0 10) = Inr s' \<and>
        res s' = res (initial_state example_target Map.empty 0 10))"
proof -
  let ?t = "example_task 4 [classic_point 0 0, classic_point 90 500, classic_point 45 700,
                            classic_point 180 400]"
  have a: "TPAngle (TP ?t 2) \<notin> {90, 180, 270, 360}"
    by (simp add: example_defs)
  have "\<exists>s'. TaskPoint example_target ?t example_coordConv False ''out'' 4 2
               (initial_state example_target Map.empty 0 10) = Inr s' \<and>
             res s' = res (initial_state example_target Map.empty 0 10)"
    by (rule unmapped_angle_ignored) (simp_all add: example_defs initial_state_def initial_settings_def)
  with a show ?thesis by simp
qed

section \<open>The bearing is below 360\<close>

text \<open>
  Whatever the arithmetic of \<^verbatim>\<open>double\<close> computes, \<^verbatim>\<open>WaypointBearing\<close> returns a number
  below 360, and 0 when both arguments of the arctangent are zero: the first by the final
  \<^verbatim>\<open>% 360\<close>, the second by the test before it. Which points make both arguments zero, and
  how far the number is from the bearing, depends on the rounding of \<^verbatim>\<open>sin\<close>,
  \<^verbatim>\<open>cos\<close>, \<^verbatim>\<open>atan2\<close> and of the sums and products, which the model leaves open.
\<close>

lemma static_cast_unsigned_nat:
  assumes "0 \<le> d" and "d < 4294967296"
  shows "unat (static_cast_unsigned d) = nat \<lfloor>d\<rfloor>"
proof -
  have "0 \<le> \<lfloor>d\<rfloor>" using assms(1) by simp
  moreover have "\<lfloor>d\<rfloor> < 4294967296" using assms(2) by (simp add: floor_less_iff)
  ultimately have "nat \<lfloor>d\<rfloor> < 4294967296" by linarith
  then have "nat \<lfloor>d\<rfloor> < 2 ^ LENGTH(32)" by simp
  then have "unat (of_nat (nat \<lfloor>d\<rfloor>) :: unsigned) = nat \<lfloor>d\<rfloor>"
    by (simp add: unat_of_nat)
  moreover have "(of_nat (nat \<lfloor>d\<rfloor>) :: unsigned) = word_of_int \<lfloor>d\<rfloor>"
    using \<open>0 \<le> \<lfloor>d\<rfloor>\<close> by simp
  ultimately show ?thesis
    using assms(1) by (simp add: static_cast_unsigned_def)
qed

lemma unat_mod_360: "unat (w mod 360 :: unsigned) = unat w mod 360"
  by (simp add: unat_mod)

lemma WaypointBearing_less: "unat (WaypointBearing m lon1 lat1 lon2 lat2) < 360"
  by (simp add: WaypointBearing_def Let_def unat_mod_360)

lemma WaypointBearing_zero:
  "bearing_x m lon1 lat1 lon2 lat2 = 0 \<Longrightarrow> bearing_y m lon1 lat1 lon2 lat2 = 0 \<Longrightarrow>
   WaypointBearing m lon1 lat1 lon2 lat2 = 0"
  by (simp add: WaypointBearing_def)

section \<open>The radials of an AAT sector\<close>

lemma floor_half_nat: "\<lfloor>real n / 2\<rfloor> = int (n div 2)"
  using floor_divide_of_nat_eq [of n 2, where ?'a = real] by simp

lemma static_cast_unsigned_half:
  assumes "n < 8589934592"
  shows "unat (static_cast_unsigned (real n / 2)) = n div 2"
proof -
  have "unat (static_cast_unsigned (real n / 2)) = nat \<lfloor>real n / 2\<rfloor>"
    using assms by (intro static_cast_unsigned_nat) simp_all
  then show ?thesis by (simp only: floor_half_nat nat_int)
qed

lemma halfAngle_of_unat:
  assumes "unat a1 < 360" and "unat a2 < 360"
  shows "unat (halfAngle_of a1 a2) =
         (if 180 < unat a1 - unat a2 \<or> 180 < unat a2 - unat a1
          then ((unat a1 + unat a2) div 2 + 180) mod 360
          else (unat a1 + unat a2) div 2)"
proof (cases "a1 = a2")
  case True
  then show ?thesis by (simp add: halfAngle_of_def)
next
  case False
  have sum: "unat (a1 + a2) = unat a1 + unat a2"
    using assms by (intro unat_add_lem [THEN iffD1]) simp
  define H where "H = static_cast_unsigned (real (unat (a1 + a2)) / 2.0)"
  have h: "unat H = (unat a1 + unat a2) div 2"
    using assms static_cast_unsigned_half [of "unat a1 + unat a2"] by (simp add: H_def sum)
  have h180: "unat (H + 180) = (unat a1 + unat a2) div 2 + 180"
  proof -
    have "unat H + unat (180 :: unsigned) < 2 ^ LENGTH(32)"
      using assms by (simp add: h)
    then have "unat (H + 180) = unat H + unat (180 :: unsigned)"
      by (rule unat_add_lem [THEN iffD1])
    then show ?thesis by (simp add: h)
  qed
  have c1: "(a1 > a2 \<and> a1 - a2 > 180) \<longleftrightarrow> 180 < unat a1 - unat a2"
  proof (cases "a2 \<le> a1")
    case True
    then have "unat (a1 - a2) = unat a1 - unat a2" by (rule unat_sub)
    then show ?thesis using True by (auto simp: word_less_nat_alt word_le_nat_alt)
  next
    case False
    then show ?thesis by (auto simp: word_less_nat_alt word_le_nat_alt)
  qed
  have c2: "(a1 < a2 \<and> a2 - a1 > 180) \<longleftrightarrow> 180 < unat a2 - unat a1"
  proof (cases "a1 \<le> a2")
    case True
    then have "unat (a2 - a1) = unat a2 - unat a1" by (rule unat_sub)
    then show ?thesis using True by (auto simp: word_less_nat_alt word_le_nat_alt)
  next
    case False
    then show ?thesis by (auto simp: word_less_nat_alt word_le_nat_alt)
  qed
  have "halfAngle_of a1 a2 =
        (if (a1 > a2 \<and> a1 - a2 > 180) \<or> (a1 < a2 \<and> a2 - a1 > 180)
         then (H + 180) mod 360 else H)"
    using False by (simp only: halfAngle_of_def Let_def H_def if_False)
  then show ?thesis
    by (simp add: c1 c2 unat_mod_360 h h180)
qed

lemma halfAngle_of_less:
  assumes "unat a1 < 360" and "unat a2 < 360"
  shows "unat (halfAngle_of a1 a2) < 360"
  using assms by (simp add: halfAngle_of_unat) arith

lemma unat_360_plus:
  assumes "unat h < 360"
  shows "unat (360 + h :: unsigned) = 360 + unat h"
proof -
  have "unat (360 + h) = unat (360 :: unsigned) + unat h"
    using assms by (intro unat_add_lem [THEN iffD1]) simp
  then show ?thesis by simp
qed

lemma AATStartRadial_of_unat:
  assumes "unat h < 360" and "unat angle \<le> 720"
  shows "unat (AATStartRadial_of h angle) = (360 + unat h - (unat angle + 1) div 2) mod 360"
proof -
  define m where "m = 2 * (360 + unat h) - unat angle"
  have e: "real (unat (360 + h)) - real (unat angle) / 2.0 = real m / 2"
    unfolding unat_360_plus [OF assms(1)]
    using assms by (simp add: m_def of_nat_diff field_simps)
  have "m < 8589934592" unfolding m_def using assms by simp
  then have "unat (static_cast_unsigned (real m / 2)) = m div 2"
    by (rule static_cast_unsigned_half)
  moreover have "m div 2 = 360 + unat h - (unat angle + 1) div 2"
    unfolding m_def using assms by presburger
  ultimately show ?thesis
    by (simp only: AATStartRadial_of_def e unat_mod_360)
qed

lemma AATFinishRadial_of_unat:
  assumes "unat h < 360"
  shows "unat (AATFinishRadial_of h angle) = (360 + unat h + unat angle div 2) mod 360"
proof -
  define m where "m = 2 * (360 + unat h) + unat angle"
  have e: "real (unat (360 + h)) + real (unat angle) / 2.0 = real m / 2"
    unfolding unat_360_plus [OF assms]
    by (simp add: m_def field_simps)
  have "unat angle < 4294967296" using unsigned_less [of angle, where ?'a = nat] by simp
  then have "m < 8589934592" unfolding m_def using assms by simp
  then have "unat (static_cast_unsigned (real m / 2)) = m div 2"
    by (rule static_cast_unsigned_half)
  moreover have "m div 2 = 360 + unat h + unat angle div 2"
    unfolding m_def by presburger
  ultimately show ?thesis
    by (simp only: AATFinishRadial_of_def e unat_mod_360)
qed

lemma TaskPoint_AAT:
  assumes "i - 1 < length (taskPointArray s)"
    and "TPSectorType (TP taskParser i) = SECTOR_CLASSIC tgt"
    and "AATEnabled (settingsTask (res s))" and "1 < i" and "i < unat (tpNum - 1)"
  shows "\<exists>s'. TaskPoint tgt taskParser coordConv g wpPath tpNum i s = Inr s' \<and>
    res s' = res s \<and>
    taskPointArray s' ! (i - 1) =
      AATPoint tgt taskParser coordConv i
        (Longitude coordConv (TPPosX (TP taskParser i)) (TPPosY (TP taskParser i)))
        (Latitude coordConv (TPPosX (TP taskParser i)) (TPPosY (TP taskParser i)))
        (TPRadius (TP taskParser i)) (TPAngle (TP taskParser i))
        ((taskPointArray s ! (i - 1))\<lparr>Index := int (WAYPOINT_INDEX_OFFSET tgt + i)\<rparr>)"
  using assms by (simp add: TaskPoint_def SectorProcess_def Let_def)

text \<open>
  Claim C3, as amended. Take a task with AAT enabled and a point strictly between start
  and finish, of classic sector type, with an angle other than 360 and at most 720. The
  round of the loop writes an AAT sector with the declared radius to the task point array.
  With \<open>angle1\<close> and \<open>angle2\<close> the bearings from the previous and from the next point to
  this one, the half angle \<open>h\<close> is the arithmetic mean of the two bearings with its
  fraction dropped, \<open>(angle1 + angle2) div 2\<close>, and 180 is added and the sum reduced modulo
  360 exactly when the bearings differ by more than 180. The start radial is \<open>h\<close> minus half
  the declared angle and the finish radial is \<open>h\<close> plus half the declared angle, each
  computed from \<open>360 + h\<close> with the fraction dropped after the halving (so half of an odd
  angle counts as the next whole number in the start radial and as the one below in the
  finish radial) and reduced modulo 360; both are below 360. Bearings 10 and 350 give the
  half angle 0.
\<close>

theorem AAT_sector_radials:
  "(AATEnabled (settingsTask (res s)) \<and> 1 < i \<and> i < unat (tpNum - 1) \<and>
    i - 1 < length (taskPointArray s) \<and>
    TPSectorType (TP taskParser i) = SECTOR_CLASSIC tgt \<and>
    TPAngle (TP taskParser i) \<noteq> 360 \<and> unat (TPAngle (TP taskParser i)) \<le> 720 \<and>
    lon = Longitude coordConv (TPPosX (TP taskParser i)) (TPPosY (TP taskParser i)) \<and>
    lat = Latitude coordConv (TPPosX (TP taskParser i)) (TPPosY (TP taskParser i)) \<and>
    angle1 = WaypointBearing (math tgt)
               (Longitude coordConv (TPPosX (TP taskParser (i - 1))) (TPPosY (TP taskParser (i - 1))))
               (Latitude coordConv (TPPosX (TP taskParser (i - 1))) (TPPosY (TP taskParser (i - 1))))
               lon lat \<and>
    angle2 = WaypointBearing (math tgt)
               (Longitude coordConv (TPPosX (TP taskParser (i + 1))) (TPPosY (TP taskParser (i + 1))))
               (Latitude coordConv (TPPosX (TP taskParser (i + 1))) (TPPosY (TP taskParser (i + 1))))
               lon lat \<and>
    h = unat (halfAngle_of angle1 angle2) \<longrightarrow>
    (\<exists>s'. TaskPoint tgt taskParser coordConv generateWPFile wpPath tpNum i s = Inr s' \<and>
       res s' = res s \<and>
       AATType (taskPointArray s' ! (i - 1)) = WAYPOINT_AAT_SECTOR \<and>
       AATSectorRadius (taskPointArray s' ! (i - 1)) = TPRadius (TP taskParser i) \<and>
       h = (if 180 < unat angle1 - unat angle2 \<or> 180 < unat angle2 - unat angle1
            then ((unat angle1 + unat angle2) div 2 + 180) mod 360
            else (unat angle1 + unat angle2) div 2) \<and>
       unat (AATStartRadial (taskPointArray s' ! (i - 1))) =
         (360 + h - (unat (TPAngle (TP taskParser i)) + 1) div 2) mod 360 \<and>
       unat (AATFinishRadial (taskPointArray s' ! (i - 1))) =
         (360 + h + unat (TPAngle (TP taskParser i)) div 2) mod 360 \<and>
       unat (AATStartRadial (taskPointArray s' ! (i - 1))) < 360 \<and>
       unat (AATFinishRadial (taskPointArray s' ! (i - 1))) < 360)) \<and>
   (unat b1 < 360 \<and> unat b2 < 360 \<longrightarrow>
      unat (halfAngle_of b1 b2) =
        (if 180 < unat b1 - unat b2 \<or> 180 < unat b2 - unat b1
         then ((unat b1 + unat b2) div 2 + 180) mod 360
         else (unat b1 + unat b2) div 2)) \<and>
   halfAngle_of 10 350 = 0"
proof (intro conjI impI)
  assume a: "AATEnabled (settingsTask (res s)) \<and> 1 < i \<and> i < unat (tpNum - 1) \<and>
    i - 1 < length (taskPointArray s) \<and>
    TPSectorType (TP taskParser i) = SECTOR_CLASSIC tgt \<and>
    TPAngle (TP taskParser i) \<noteq> 360 \<and> unat (TPAngle (TP taskParser i)) \<le> 720 \<and>
    lon = Longitude coordConv (TPPosX (TP taskParser i)) (TPPosY (TP taskParser i)) \<and>
    lat = Latitude coordConv (TPPosX (TP taskParser i)) (TPPosY (TP taskParser i)) \<and>
    angle1 = WaypointBearing (math tgt)
               (Longitude coordConv (TPPosX (TP taskParser (i - 1))) (TPPosY (TP taskParser (i - 1))))
               (Latitude coordConv (TPPosX (TP taskParser (i - 1))) (TPPosY (TP taskParser (i - 1))))
               lon lat \<and>
    angle2 = WaypointBearing (math tgt)
               (Longitude coordConv (TPPosX (TP taskParser (i + 1))) (TPPosY (TP taskParser (i + 1))))
               (Latitude coordConv (TPPosX (TP taskParser (i + 1))) (TPPosY (TP taskParser (i + 1))))
               lon lat \<and>
    h = unat (halfAngle_of angle1 angle2)"
  let ?angle = "TPAngle (TP taskParser i)"
  from a have aat: "AATEnabled (settingsTask (res s))" and i1: "1 < i"
    and i2: "i < unat (tpNum - 1)" and len: "i - 1 < length (taskPointArray s)"
    and cl: "TPSectorType (TP taskParser i) = SECTOR_CLASSIC tgt"
    and ne: "?angle \<noteq> 360" and le: "unat ?angle \<le> 720"
    and lon: "lon = Longitude coordConv (TPPosX (TP taskParser i)) (TPPosY (TP taskParser i))"
    and lat: "lat = Latitude coordConv (TPPosX (TP taskParser i)) (TPPosY (TP taskParser i))"
    and ang1: "angle1 = WaypointBearing (math tgt)
               (Longitude coordConv (TPPosX (TP taskParser (i - 1))) (TPPosY (TP taskParser (i - 1))))
               (Latitude coordConv (TPPosX (TP taskParser (i - 1))) (TPPosY (TP taskParser (i - 1))))
               lon lat"
    and ang2: "angle2 = WaypointBearing (math tgt)
               (Longitude coordConv (TPPosX (TP taskParser (i + 1))) (TPPosY (TP taskParser (i + 1))))
               (Latitude coordConv (TPPosX (TP taskParser (i + 1))) (TPPosY (TP taskParser (i + 1))))
               lon lat"
    and hd: "h = unat (halfAngle_of angle1 angle2)"
    by blast+
  have b1: "unat angle1 < 360" and b2: "unat angle2 < 360"
    unfolding ang1 ang2 by (rule WaypointBearing_less)+
  have hl: "unat (halfAngle_of angle1 angle2) < 360"
    using b1 b2 by (rule halfAngle_of_less)
  from TaskPoint_AAT [OF len cl aat i1 i2, of coordConv generateWPFile wpPath]
  obtain s' where run: "TaskPoint tgt taskParser coordConv generateWPFile wpPath tpNum i s = Inr s'"
    and r: "res s' = res s"
    and tp: "taskPointArray s' ! (i - 1) =
      AATPoint tgt taskParser coordConv i lon lat (TPRadius (TP taskParser i)) ?angle
        ((taskPointArray s ! (i - 1))\<lparr>Index := int (WAYPOINT_INDEX_OFFSET tgt + i)\<rparr>)"
    unfolding lon lat by blast
  have ty: "AATType (taskPointArray s' ! (i - 1)) = WAYPOINT_AAT_SECTOR"
    and ra: "AATSectorRadius (taskPointArray s' ! (i - 1)) = TPRadius (TP taskParser i)"
    and st: "AATStartRadial (taskPointArray s' ! (i - 1)) =
             AATStartRadial_of (halfAngle_of angle1 angle2) ?angle"
    and fi: "AATFinishRadial (taskPointArray s' ! (i - 1)) =
             AATFinishRadial_of (halfAngle_of angle1 angle2) ?angle"
    using ne unfolding tp ang1 ang2 AATPoint_def Let_def by simp_all
  have hv: "h = (if 180 < unat angle1 - unat angle2 \<or> 180 < unat angle2 - unat angle1
            then ((unat angle1 + unat angle2) div 2 + 180) mod 360
            else (unat angle1 + unat angle2) div 2)"
    using halfAngle_of_unat [OF b1 b2] by (simp only: hd)
  have sv: "unat (AATStartRadial (taskPointArray s' ! (i - 1))) =
         (360 + h - (unat ?angle + 1) div 2) mod 360"
    using AATStartRadial_of_unat [OF hl le] by (simp only: st hd)
  have fv: "unat (AATFinishRadial (taskPointArray s' ! (i - 1))) =
         (360 + h + unat ?angle div 2) mod 360"
    using AATFinishRadial_of_unat [OF hl, of ?angle] by (simp only: fi hd)
  have "unat (AATStartRadial (taskPointArray s' ! (i - 1))) < 360"
    and "unat (AATFinishRadial (taskPointArray s' ! (i - 1))) < 360"
    unfolding sv fv by simp_all
  with run r ty ra hv sv fv
  show "\<exists>s'. TaskPoint tgt taskParser coordConv generateWPFile wpPath tpNum i s = Inr s' \<and>
       res s' = res s \<and>
       AATType (taskPointArray s' ! (i - 1)) = WAYPOINT_AAT_SECTOR \<and>
       AATSectorRadius (taskPointArray s' ! (i - 1)) = TPRadius (TP taskParser i) \<and>
       h = (if 180 < unat angle1 - unat angle2 \<or> 180 < unat angle2 - unat angle1
            then ((unat angle1 + unat angle2) div 2 + 180) mod 360
            else (unat angle1 + unat angle2) div 2) \<and>
       unat (AATStartRadial (taskPointArray s' ! (i - 1))) =
         (360 + h - (unat (TPAngle (TP taskParser i)) + 1) div 2) mod 360 \<and>
       unat (AATFinishRadial (taskPointArray s' ! (i - 1))) =
         (360 + h + unat (TPAngle (TP taskParser i)) div 2) mod 360 \<and>
       unat (AATStartRadial (taskPointArray s' ! (i - 1))) < 360 \<and>
       unat (AATFinishRadial (taskPointArray s' ! (i - 1))) < 360"
    by blast
next
  assume "unat b1 < 360 \<and> unat b2 < 360"
  then show "unat (halfAngle_of b1 b2) =
        (if 180 < unat b1 - unat b2 \<or> 180 < unat b2 - unat b1
         then ((unat b1 + unat b2) div 2 + 180) mod 360
         else (unat b1 + unat b2) div 2)"
    by (simp add: halfAngle_of_unat)
next
  show "halfAngle_of 10 350 = 0"
    by (simp add: halfAngle_of_def static_cast_unsigned_def)
qed

text \<open>
  The theorem at the turnpoint of an AAT task whose points coincide (both bearings are 0)
  with a declared angle of 90, and the half angle at the bearings 10 and 350, 10 and 11.
\<close>

theorem AAT_sector_radials_witness:
  "(\<exists>s'. TaskPoint example_target
           (example_task 4 [classic_point 0 0, classic_point 90 500, classic_point 90 1000,
                            classic_point 180 400])
           example_coordConv False ''out'' 4 2 (initial_state example_target Map.empty 60 10) = Inr s' \<and>
         AATType (taskPointArray s' ! 1) = WAYPOINT_AAT_SECTOR \<and>
         AATSectorRadius (taskPointArray s' ! 1) = 1000 \<and>
         unat (AATStartRadial (taskPointArray s' ! 1)) = 315 \<and>
         unat (AATFinishRadial (taskPointArray s' ! 1)) = 45) \<and>
   unat (halfAngle_of 10 350) = 0 \<and> unat (halfAngle_of 10 11) = 10"
proof -
  let ?t = "example_task 4 [classic_point 0 0, classic_point 90 500, classic_point 90 1000,
                            classic_point 180 400]"
  have w: "WaypointBearing exact_cmath 0 0 0 0 = 0"
    by (simp add: WaypointBearing_def bearing_x_def bearing_y_def exact_cmath_def)
  have h0: "halfAngle_of 0 0 = 0"
    by (simp add: halfAngle_of_def)
  have A: "\<exists>s'. TaskPoint example_target ?t example_coordConv False ''out'' 4 2
                 (initial_state example_target Map.empty 60 10) = Inr s' \<and>
         AATType (taskPointArray s' ! 1) = WAYPOINT_AAT_SECTOR \<and>
         AATSectorRadius (taskPointArray s' ! 1) = 1000 \<and>
         unat (AATStartRadial (taskPointArray s' ! 1)) = 315 \<and>
         unat (AATFinishRadial (taskPointArray s' ! 1)) = 45"
    using AAT_sector_radials [where s = "initial_state example_target Map.empty 60 10" and i = 2
        and tpNum = 4 and taskParser = ?t and tgt = example_target
        and coordConv = example_coordConv and generateWPFile = False and wpPath = "''out''"
        and lon = 0 and lat = 0 and ?angle1.0 = 0 and ?angle2.0 = 0 and h = 0, THEN conjunct1]
    by (auto simp: example_defs initial_state_def initial_settings_def w h0)
  have B: "unat (halfAngle_of 10 350) = 0"
    using AAT_sector_radials [where ?b1.0 = 10 and ?b2.0 = 350, THEN conjunct2, THEN conjunct1] by simp
  have C: "unat (halfAngle_of 10 11) = 10"
    using AAT_sector_radials [where ?b1.0 = 10 and ?b2.0 = 11, THEN conjunct2, THEN conjunct1] by simp
  from A B C show ?thesis by blast
qed

text \<open>
  Claim C3 as it is written (the half angle equals the arithmetic mean, the radials equal
  the half angle minus and plus half the declared angle) fails where a half is not whole:
  the bearings 10 and 11 have the mean 10.5 and the half angle 10, and a declared angle of
  91 around the half angle 0 gives the radials 314 and 45, not 314.5 and 45.5.
\<close>

theorem AAT_half_angle_truncated:
  "real (unat (halfAngle_of 10 11)) \<noteq> (real (unat (10 :: unsigned)) + real (unat (11 :: unsigned))) / 2 \<and>
   map_sum id (\<lambda>r. (AATStartRadial (taskPoints r ! 1), AATFinishRadial (taskPoints r ! 1)))
     (TaskProcess example_target Map.empty
        (example_task 4 [classic_point 0 0, classic_point 90 500, classic_point 91 1000,
                         classic_point 180 400])
        example_coordConv 60 10 10 False ''out'') = Inr (314, 45)"
proof -
  have w: "WaypointBearing exact_cmath 0 0 0 0 = 0"
    by (simp add: WaypointBearing_def bearing_x_def bearing_y_def exact_cmath_def)
  have a: "halfAngle_of 10 11 = 10" and b: "halfAngle_of 0 0 = 0"
    and c: "AATStartRadial_of 0 91 = 314" and d: "AATFinishRadial_of 0 91 = 45"
    by (simp_all add: halfAngle_of_def AATStartRadial_of_def AATFinishRadial_of_def
        static_cast_unsigned_def)
  show ?thesis
    by (simp add: run_defs example_defs AATPoint_def Let_def w a b c d)
qed

section \<open>The airspace file of the penalty zones\<close>

lemma PZLoop_concat:
  "PZLoop tgt taskParser coordConv pzNum i airspacesFile =
     airspacesFile @ concat (map (zone_record tgt taskParser coordConv) [i..<unat pzNum])"
proof (induction tgt taskParser coordConv pzNum i airspacesFile rule: PZLoop.induct)
  case (1 tgt taskParser coordConv pzNum i airspacesFile)
  show ?case
  proof (cases "i < unat pzNum")
    case True
    then show ?thesis
      using "1.IH" by (subst PZLoop.simps) (simp add: upt_conv_Cons)
  next
    case False
    then show ?thesis by (subst PZLoop.simps) simp
  qed
qed

text \<open>
  Claim C8. If \<^verbatim>\<open>PZCount\<close> is 0, the key \<^verbatim>\<open>AirspaceFile\<close> of the profile is set to two
  double quotes and no airspace file is written. Otherwise the key is set to the quoted
  path of the airspace file, and the file holds the three lines of the banner and then the
  record of every zone, zone 0 first.
\<close>

theorem PenaltyZonesProcess_output:
  "(PZCount taskParser = 0 \<longrightarrow>
      PenaltyZonesProcess tgt profileParser taskParser coordConv pathPrefix outputPathPrefix =
        (profileParser(''AirspaceFile'' \<mapsto> [CHR 0x22, CHR 0x22]), None)) \<and>
   (PZCount taskParser \<noteq> 0 \<longrightarrow>
      PenaltyZonesProcess tgt profileParser taskParser coordConv pathPrefix outputPathPrefix =
        (profileParser(''AirspaceFile'' \<mapsto>
           [CHR 0x22] @ path_join tgt pathPrefix ''Condor.txt'' @ [CHR 0x22]),
         Some (path_join tgt outputPathPrefix ''Condor.txt'',
               banner @ concat (map (zone_record tgt taskParser coordConv)
                                  [0..<unat (PZCount taskParser)]))))"
  by (simp add: PenaltyZonesProcess_def PZLoop_concat)

text \<open>The theorem at a task without penalty zones and at a task with two of them.\<close>

theorem PenaltyZonesProcess_output_witness:
  "PZCount (example_task 0 []) = 0 \<and>
   PenaltyZonesProcess example_target Map.empty (example_task 0 []) example_coordConv ''pre'' ''out'' =
     ([''AirspaceFile'' \<mapsto> [CHR 0x22, CHR 0x22]], None) \<and>
   snd (PenaltyZonesProcess example_target Map.empty
          ((example_task 0 [])
             \<lparr>PZCount := 2,
              PZ := \<lambda>i. \<lparr>PZTop = ''1000'', PZBase = (if i = 0 then 0 else 500),
                          PZPos = (\<lambda>j. (''0'', ''0''))\<rparr>\<rparr>)
          example_coordConv ''pre'' ''out'') =
     Some (''out/Condor.txt'',
           [''*******************************************************'',
            ''* Condor Task Penalty Zones generated with Condor2Nav *'',
            ''*******************************************************'',
            [], ''AC P'', ''AN Penalty Zone 1'', ''AH 1000m AMSL'', ''AL 0'',
            ''DP  '', ''DP  '', ''DP  '', ''DP  '',
            [], ''AC P'', ''AN Penalty Zone 2'', ''AH 1000m AMSL'', ''AL 500m AMSL'',
            ''DP  '', ''DP  '', ''DP  '', ''DP  ''])"
proof -
  let ?t = "(example_task 0 [])
             \<lparr>PZCount := 2,
              PZ := \<lambda>i. \<lparr>PZTop = ''1000'', PZBase = (if i = 0 then 0 else 500),
                          PZPos = (\<lambda>j. (''0'', ''0''))\<rparr>\<rparr>"
  have z: "PZCount (example_task 0 []) = 0" by (simp add: example_task_def)
  have n: "PZCount ?t \<noteq> 0" by simp
  have u: "[0..<unat (PZCount ?t)] = [0, 1]" by (simp add: upt_conv_Cons)
  from PenaltyZonesProcess_output [THEN conjunct1, rule_format, OF z] 
  have A: "PenaltyZonesProcess example_target Map.empty (example_task 0 []) example_coordConv
             ''pre'' ''out'' = ([''AirspaceFile'' \<mapsto> [CHR 0x22, CHR 0x22]], None)" .
  from PenaltyZonesProcess_output [THEN conjunct2, rule_format, OF n]
  have "snd (PenaltyZonesProcess example_target Map.empty ?t example_coordConv ''pre'' ''out'') =
        Some (path_join example_target ''out'' ''Condor.txt'',
              banner @ concat (map (zone_record example_target ?t example_coordConv)
                                 [0..<unat (PZCount ?t)]))"
    by simp
  then have B: "snd (PenaltyZonesProcess example_target Map.empty ?t example_coordConv ''pre'' ''out'') =
     Some (''out/Condor.txt'',
           [''*******************************************************'',
            ''* Condor Task Penalty Zones generated with Condor2Nav *'',
            ''*******************************************************'',
            [], ''AC P'', ''AN Penalty Zone 1'', ''AH 1000m AMSL'', ''AL 0'',
            ''DP  '', ''DP  '', ''DP  '', ''DP  '',
            [], ''AC P'', ''AN Penalty Zone 2'', ''AH 1000m AMSL'', ''AL 500m AMSL'',
            ''DP  '', ''DP  '', ''DP  '', ''DP  ''])"
    unfolding u
    by (simp add: example_target_def example_coordConv_def banner_def zone_record_def
        zone_corner_def Convert_digit Convert_more digit_def Let_def)
  from z A B show ?thesis by simp
qed

end
